theory Spec2Isabelle
  imports Main "HOL-Library.Word"
begin

unbundle bit_operations_syntax

section \<open>Machine types of Main.cpp\<close>

text \<open>
  \<^verbatim>\<open>unsigned int\<close> is a 32-bit word: \<open>+\<close> and \<open>*\<close> wrap modulo \<open>2 ^ 32\<close>, \<open><\<close> compares
  the unsigned values. A \<^verbatim>\<open>float\<close> is carried by its IEEE-754 binary32 bit pattern; no
  floating-point arithmetic is performed on it here. A buffer object's data store is a
  list of bytes.
\<close>

type_synonym u32 = "32 word"
type_synonym byte = "8 word"
type_synonym float32 = "32 word"

definition f_minus_one :: float32 where
  "f_minus_one = 0xBF800000"

definition f_zero :: float32 where
  "f_zero = 0x00000000"

definition f_one :: float32 where
  "f_one = 0x3F800000"

text \<open>
  The order of binary32 values, read off the bit patterns. The top bit is the sign, the
  other 31 bits (exponent, then mantissa) the magnitude; a pattern whose magnitude bits
  exceed those of infinity, \<open>0x7F800000\<close>, is a NaN. Among the other patterns the float order
  is the order of the signed magnitudes, \<open>+0\<close> and \<open>-0\<close> being equal. \<open>float_in a b w\<close> says
  that \<open>w\<close> is a number of the half-open range \<open>[a, b)\<close>.
\<close>

definition magnitude_bits :: "nat \<Rightarrow> nat" where
  "magnitude_bits n = (if n < 2147483648 then n else n - 2147483648)"

definition key_of :: "nat \<Rightarrow> int" where
  "key_of n = (if n < 2147483648 then int (magnitude_bits n) else - int (magnitude_bits n))"

definition is_nan :: "float32 \<Rightarrow> bool" where
  "is_nan w \<longleftrightarrow> magnitude_bits (unat w) > 2139095040"

definition float_key :: "float32 \<Rightarrow> int" where
  "float_key w = key_of (unat w)"

definition float_in :: "float32 \<Rightarrow> float32 \<Rightarrow> float32 \<Rightarrow> bool" where
  "float_in a b w \<longleftrightarrow> \<not> is_nan w \<and> float_key a \<le> float_key w \<and> float_key w < float_key b"

text \<open>The object representation of one float: \<^verbatim>\<open>sizeof(float)\<close> = 4 bytes, least
  significant byte first.\<close>

definition float_bytes :: "float32 \<Rightarrow> byte list" where
  "float_bytes w = [ucast w, ucast (drop_bit 8 w), ucast (drop_bit 16 w), ucast (drop_bit 24 w)]"

definition vector_bytes :: "float32 list \<Rightarrow> byte list" where
  "vector_bytes buffer = concat (map float_bytes buffer)"

section \<open>The collaborators: the random library and OpenGL\<close>

text \<open>
  \<^verbatim>\<open>std::default_random_engine\<close> is an implementation-defined engine type and
  \<^verbatim>\<open>std::uniform_real_distribution\<close> an implementation-defined algorithm, so the library is
  a parameter of the model. \<open>default_engine\<close> is the state of \<^verbatim>\<open>std::default_random_engine engine;\<close>
  (default-constructed: the engine's fixed default seed), \<open>seed_engine s\<close> the state of
  \<^verbatim>\<open>std::default_random_engine engine(s)\<close>, and \<open>uniform_real a b e\<close> one call
  \<^verbatim>\<open>std::uniform_real_distribution(a, b)(engine)\<close>: the float drawn and the engine's next state.
  Engines are values and the distributions are local objects, so a draw depends on nothing
  but the bounds and the engine's state.
\<close>

record 'e stdlib =
  default_engine :: 'e
  seed_engine :: "u32 \<Rightarrow> 'e"
  uniform_real :: "float32 \<Rightarrow> float32 \<Rightarrow> 'e \<Rightarrow> float32 \<times> 'e"

text \<open>
  What the C++ standard promises of \<^verbatim>\<open>std::uniform_real_distribution(a, b)\<close>, a value \<open>x\<close> with
  \<open>a \<le> x < b\<close>, at the three pairs of bounds the program draws with.
\<close>

definition range_contract :: "'e stdlib \<Rightarrow> bool" where
  "range_contract L \<longleftrightarrow>
     (\<forall>e. float_in f_zero f_one (fst (uniform_real L f_zero f_one e)))
   \<and> (\<forall>e. float_in f_minus_one f_zero (fst (uniform_real L f_minus_one f_zero e)))
   \<and> (\<forall>e. float_in f_minus_one f_one (fst (uniform_real L f_minus_one f_one e)))"

text \<open>
  The part of the OpenGL state the program's buffer calls touch: the data stores of the
  buffer objects by name, the \<^verbatim>\<open>GL_ARRAY_BUFFER\<close> binding, the name \<^verbatim>\<open>glGenBuffers\<close> hands
  out next, the errors recorded so far and the number of \<^verbatim>\<open>glDrawArrays\<close> calls executed.
\<close>

datatype gl_error = GL_INVALID_VALUE | GL_INVALID_OPERATION

record gl_state =
  buffers :: "u32 \<Rightarrow> byte list option"
  array_buffer :: u32
  next_name :: u32
  gl_errors :: "gl_error list"
  draw_calls :: nat

definition glGenBuffers :: "gl_state \<Rightarrow> u32 \<times> gl_state" where
  "glGenBuffers gl = (next_name gl, gl\<lparr>next_name := next_name gl + 1\<rparr>)"

text \<open>Binding a non-zero name for the first time creates its buffer object, with an
  empty data store; binding 0 unbinds.\<close>

definition glBindBuffer :: "u32 \<Rightarrow> gl_state \<Rightarrow> gl_state" where
  "glBindBuffer name gl =
     gl\<lparr>array_buffer := name,
        buffers := (if name \<noteq> 0 \<and> buffers gl name = None
                    then (buffers gl)(name \<mapsto> []) else buffers gl)\<rparr>"

text \<open>\<^verbatim>\<open>glBufferData(GL_ARRAY_BUFFER, size, data, usage)\<close>: a new data store of \<open>size\<close> bytes
  for the bound buffer, initialised from \<open>data\<close>; \<^verbatim>\<open>GL_INVALID_OPERATION\<close> when nothing is bound.\<close>

definition glBufferData :: "nat \<Rightarrow> byte list \<Rightarrow> gl_state \<Rightarrow> gl_state" where
  "glBufferData size_bytes data gl =
     (if array_buffer gl = 0 then gl\<lparr>gl_errors := gl_errors gl @ [GL_INVALID_OPERATION]\<rparr>
      else gl\<lparr>buffers := (buffers gl)(array_buffer gl \<mapsto> take size_bytes data)\<rparr>)"

text \<open>\<^verbatim>\<open>glBufferSubData(GL_ARRAY_BUFFER, offset, size, data)\<close>: overwrites \<open>size\<close> bytes of the
  bound buffer's store from byte \<open>offset\<close> on; \<^verbatim>\<open>GL_INVALID_OPERATION\<close> when nothing is bound,
  \<^verbatim>\<open>GL_INVALID_VALUE\<close> when the range reaches beyond the store. An error leaves the store as
  it was.\<close>

definition glBufferSubData :: "nat \<Rightarrow> nat \<Rightarrow> byte list \<Rightarrow> gl_state \<Rightarrow> gl_state" where
  "glBufferSubData byte_offset size_bytes data gl =
     (case buffers gl (array_buffer gl) of
        None \<Rightarrow> gl\<lparr>gl_errors := gl_errors gl @ [GL_INVALID_OPERATION]\<rparr>
      | Some store \<Rightarrow>
          if array_buffer gl = 0 then gl\<lparr>gl_errors := gl_errors gl @ [GL_INVALID_OPERATION]\<rparr>
          else if byte_offset + size_bytes > length store
          then gl\<lparr>gl_errors := gl_errors gl @ [GL_INVALID_VALUE]\<rparr>
          else gl\<lparr>buffers := (buffers gl)(array_buffer gl \<mapsto>
                 take byte_offset store @ take size_bytes data @ drop (byte_offset + size_bytes) store)\<rparr>)"

definition glDrawArrays :: "gl_state \<Rightarrow> gl_state" where
  "glDrawArrays gl = gl\<lparr>draw_calls := Suc (draw_calls gl)\<rparr>"

section \<open>Point Buffer Manager\<close>

text \<open>
  The loop that \<^verbatim>\<open>CreateRandomPointBuffer\<close> and \<^verbatim>\<open>AlterBuffer\<close> both contain:
  \<^verbatim>\<open>for (unsigned int i = 0; i < n; i++) { buffer.push_back(xDistribution(engine));
  buffer.push_back(yDistribution(engine)); }\<close>
  with the two distributions and the engine as arguments.
\<close>

function push_points ::
  "('e \<Rightarrow> float32 \<times> 'e) \<Rightarrow> ('e \<Rightarrow> float32 \<times> 'e) \<Rightarrow> u32 \<Rightarrow> u32 \<Rightarrow> 'e \<Rightarrow> float32 list \<Rightarrow> float32 list"
where
  "push_points xDistribution yDistribution i n engine buffer =
     (if i < n
      then push_points xDistribution yDistribution (i + 1) n
             (snd (yDistribution (snd (xDistribution engine))))
             (buffer @ [fst (xDistribution engine),
                        fst (yDistribution (snd (xDistribution engine)))])
      else buffer)"
  by pat_completeness auto
termination
proof (relation "measure (\<lambda>(xd, yd, i, n, e, b). unat n - unat i)")
  show "wf (measure (\<lambda>(xd, yd, i, n, e, b). unat n - unat i))"
    by simp
next
  fix xd yd :: "'e \<Rightarrow> float32 \<times> 'e" and i n :: u32 and e :: 'e and b :: "float32 list"
  assume lt: "i < n"
  then have less: "unat i < unat n"
    by (simp add: word_less_nat_alt)
  moreover have "unat n < 2 ^ 32"
    using unsigned_less [of n] by simp
  ultimately have "unat i + 1 < 2 ^ 32"
    by simp
  then have "unat (i + 1) = Suc (unat i)"
    by (simp add: unat_word_ariths)
  with less show
    "((xd, yd, i + 1, n, snd (yd (snd (xd e))), b @ [fst (xd e), fst (yd (snd (xd e)))]),
      (xd, yd, i, n, e, b)) \<in> measure (\<lambda>(xd, yd, i, n, e, b). unat n - unat i)"
    by simp
qed

declare push_points.simps [simp del]

text \<open>The same data as the specification words it: \<open>k\<close> points drawn one after the other,
  each an \<open>x\<close> and then a \<open>y\<close> from the engine as the previous point left it, laid out as
  \<open>x\<^sub>0, y\<^sub>0, x\<^sub>1, y\<^sub>1, \<dots>\<close>.\<close>

primrec sample_points ::
  "('e \<Rightarrow> float32 \<times> 'e) \<Rightarrow> ('e \<Rightarrow> float32 \<times> 'e) \<Rightarrow> nat \<Rightarrow> 'e \<Rightarrow> (float32 \<times> float32) list"
where
  "sample_points xDistribution yDistribution 0 engine = []"
| "sample_points xDistribution yDistribution (Suc k) engine =
     (fst (xDistribution engine), fst (yDistribution (snd (xDistribution engine))))
       # sample_points xDistribution yDistribution k
           (snd (yDistribution (snd (xDistribution engine))))"

definition interleaved :: "(float32 \<times> float32) list \<Rightarrow> float32 list" where
  "interleaved ps = concat (map (\<lambda>p. [fst p, snd p]) ps)"

text \<open>\<^verbatim>\<open>CreateRandomPointBuffer(count)\<close>: the staging vector, then the upload. The size passed
  to \<^verbatim>\<open>glBufferData\<close> is \<^verbatim>\<open>buffer.size() * sizeof(float)\<close>, computed in \<^verbatim>\<open>size_t\<close>, which
  holds the byte size of any vector that exists. \<^verbatim>\<open>buffer.reserve\<close> sets the vector's
  capacity only and has no counterpart in the model.\<close>

definition initial_points :: "'e stdlib \<Rightarrow> u32 \<Rightarrow> float32 list" where
  "initial_points L count =
     push_points (uniform_real L f_minus_one f_zero) (uniform_real L f_minus_one f_one)
       0 count (default_engine L) []"

definition CreateRandomPointBuffer :: "'e stdlib \<Rightarrow> u32 \<Rightarrow> gl_state \<Rightarrow> u32 \<times> gl_state" where
  "CreateRandomPointBuffer L count gl =
     (let buffer = initial_points L count;
          vbo = fst (glGenBuffers gl);
          gl1 = snd (glGenBuffers gl);
          gl2 = glBindBuffer vbo gl1;
          gl3 = glBufferData (length buffer * 4) (vector_bytes buffer) gl2;
          gl4 = glBindBuffer 0 gl3
      in (vbo, gl4))"

text \<open>\<^verbatim>\<open>AlterBuffer(vbo, offset, batchSize, seed)\<close>: \<open>offset\<close> is passed by reference, so the
  model returns its new value. \<^verbatim>\<open>offset * 8\<close> and \<^verbatim>\<open>batchSize * 8\<close> are computed in
  \<^verbatim>\<open>unsigned int\<close> before they are widened to the pointer-sized arguments of
  \<^verbatim>\<open>glBufferSubData\<close>.\<close>

definition window_points :: "'e stdlib \<Rightarrow> u32 \<Rightarrow> u32 \<Rightarrow> float32 list" where
  "window_points L batchSize seed =
     push_points (uniform_real L f_zero f_one) (uniform_real L f_minus_one f_one)
       0 batchSize (seed_engine L seed) []"

definition AlterBuffer :: "'e stdlib \<Rightarrow> u32 \<Rightarrow> u32 \<Rightarrow> u32 \<Rightarrow> u32 \<Rightarrow> gl_state \<Rightarrow> gl_state \<times> u32" where
  "AlterBuffer L vbo offset batchSize seed gl =
     (let buffer = window_points L batchSize seed;
          gl1 = glBindBuffer vbo gl;
          gl2 = glBufferSubData (unat (offset * 8)) (unat (batchSize * 8)) (vector_bytes buffer) gl1;
          gl3 = glBindBuffer 0 gl2
      in (gl3, offset + batchSize))"

text \<open>Two ways of reading a data store, for stating what a call did to it: \<open>overwrite_range
  start data store\<close> is \<open>store\<close> with the bytes from \<open>start\<close> on replaced by \<open>data\<close> and every
  other byte as before; \<open>stored_range g name start n\<close> is the \<open>n\<close> bytes from \<open>start\<close> on of the
  buffer \<open>name\<close>.\<close>

definition overwrite_range :: "nat \<Rightarrow> byte list \<Rightarrow> byte list \<Rightarrow> byte list" where
  "overwrite_range start data store = take start store @ data @ drop (start + length data) store"

definition stored_range :: "gl_state \<Rightarrow> u32 \<Rightarrow> nat \<Rightarrow> nat \<Rightarrow> byte list option" where
  "stored_range g name start n = map_option (\<lambda>store. take n (drop start store)) (buffers g name)"

section \<open>Context Provider\<close>

text \<open>
  \<^verbatim>\<open>Initialize(width, height)\<close> talks to GLFW and glad only. Their answers are the
  environment: what \<^verbatim>\<open>glfwInit\<close> returns, the pointer \<^verbatim>\<open>glfwCreateWindow\<close> returns (0 is
  \<^verbatim>\<open>nullptr\<close>, its answer when the window or its context cannot be created) and what
  \<^verbatim>\<open>gladLoadGLLoader\<close> returns. A C++ function ends by returning or by ending the process;
  \<open>outcome\<close> has both, and the calls made are logged in order.
\<close>

datatype glfw_hint = GLFW_CONTEXT_VERSION_MAJOR | GLFW_CONTEXT_VERSION_MINOR | GLFW_OPENGL_PROFILE

datatype hint_value = Version nat | GLFW_OPENGL_CORE_PROFILE

datatype glfw_call =
    GlfwInit
  | GlfwWindowHint glfw_hint hint_value
  | GlfwCreateWindow int int string
  | GlfwMakeContextCurrent nat
  | GladLoadGLLoader

datatype 'a outcome = Returned 'a | Aborted string

record glfw_answers =
  init_result :: bool
  created_window :: nat
  loader_result :: bool

definition Initialize :: "int \<Rightarrow> int \<Rightarrow> glfw_answers \<Rightarrow> nat outcome \<times> glfw_call list" where
  "Initialize width height glfw =
     (let window = created_window glfw
      in (Returned window,
          [GlfwInit,
           GlfwWindowHint GLFW_CONTEXT_VERSION_MAJOR (Version 4),
           GlfwWindowHint GLFW_CONTEXT_VERSION_MINOR (Version 6),
           GlfwWindowHint GLFW_OPENGL_PROFILE GLFW_OPENGL_CORE_PROFILE,
           GlfwCreateWindow width height ''Graph'',
           GlfwMakeContextCurrent window,
           GladLoadGLLoader]))"

section \<open>Benchmark Loop Driver\<close>

text \<open>
  The constants under \<^verbatim>\<open>//PARAMETERS\<close> and the \<^verbatim>\<open>BATCHING_TEST\<close> switch are the program's
  configuration; \<open>shipped\<close> holds the values Main.cpp is compiled with.
\<close>

record config =
  pointCount :: u32
  batchSize :: u32
  BATCHING_TEST :: bool

definition shipped :: config where
  "shipped = \<lparr>pointCount = 67108864, batchSize = 16384, BATCHING_TEST = True\<rparr>"

text \<open>
  What the loop takes from outside, per iteration \<open>k\<close> (counted from 0): whether
  \<^verbatim>\<open>glfwPollEvents\<close> delivers a close request for the window, and the float \<^verbatim>\<open>ms.count()\<close>
  the clock gives.
\<close>

record environment =
  close_requested :: "nat \<Rightarrow> bool"
  elapsed_ms :: "nat \<Rightarrow> float32"

text \<open>
  The variables of \<^verbatim>\<open>main\<close> that the loop changes, the window's should-close flag, the
  OpenGL state, and a log of the \<^verbatim>\<open>AlterBuffer\<close> calls made so far: the
  \<open>(offset, batchSize, seed)\<close> each was called with. \<open>sum_f\<close> is \<^verbatim>\<open>sum\<close>, kept as the list of
  the floats added to \<^verbatim>\<open>0.f\<close> so far, in order: the float additions are not carried out.
\<close>

record loop_state =
  frame :: u32
  offset :: u32
  sum_f :: "float32 list"
  should_close :: bool
  gl :: gl_state
  alter_calls :: "(u32 \<times> u32 \<times> u32) list"

text \<open>One pass through the body of \<^verbatim>\<open>while (!glfwWindowShouldClose(window))\<close>:
  \<^verbatim>\<open>glfwPollEvents\<close>, the \<^verbatim>\<open>BATCHING_TEST\<close> block, the render pass (of which the state keeps
  the \<^verbatim>\<open>glDrawArrays\<close> call), then \<^verbatim>\<open>frame += 1u\<close> and \<^verbatim>\<open>sum += ms.count()\<close>.\<close>

definition poll_events :: "environment \<Rightarrow> nat \<Rightarrow> loop_state \<Rightarrow> loop_state" where
  "poll_events env k s = s\<lparr>should_close := should_close s \<or> close_requested env k\<rparr>"

definition batching_step :: "config \<Rightarrow> 'e stdlib \<Rightarrow> u32 \<Rightarrow> loop_state \<Rightarrow> loop_state" where
  "batching_step cfg L vbo s =
     (if \<not> (offset s + batchSize cfg > pointCount cfg)
      then s\<lparr>gl := fst (AlterBuffer L vbo (offset s) (batchSize cfg) (frame s) (gl s)),
              offset := snd (AlterBuffer L vbo (offset s) (batchSize cfg) (frame s) (gl s)),
              alter_calls := alter_calls s @ [(offset s, batchSize cfg, frame s)]\<rparr>
      else s\<lparr>should_close := True\<rparr>)"

definition render_pass :: "loop_state \<Rightarrow> loop_state" where
  "render_pass s = s\<lparr>gl := glDrawArrays (gl s)\<rparr>"

definition loop_body :: "config \<Rightarrow> 'e stdlib \<Rightarrow> environment \<Rightarrow> u32 \<Rightarrow> nat \<Rightarrow> loop_state \<Rightarrow> loop_state" where
  "loop_body cfg L env vbo k s =
     (let s1 = poll_events env k s;
          s2 = (if BATCHING_TEST cfg then batching_step cfg L vbo s1 else s1);
          s3 = render_pass s2
      in s3\<lparr>frame := frame s3 + 1, sum_f := sum_f s3 @ [elapsed_ms env k]\<rparr>)"

text \<open>The loop may run forever, so it runs on fuel: \<open>None\<close> is "still running when the
  fuel ran out", \<open>Some s\<close> the state in which the loop condition failed.\<close>

fun main_loop ::
  "nat \<Rightarrow> config \<Rightarrow> 'e stdlib \<Rightarrow> environment \<Rightarrow> u32 \<Rightarrow> nat \<Rightarrow> loop_state \<Rightarrow> loop_state option"
where
  "main_loop 0 cfg L env vbo k s = None"
| "main_loop (Suc fuel) cfg L env vbo k s =
     (if should_close s then Some s
      else main_loop fuel cfg L env vbo (Suc k) (loop_body cfg L env vbo k s))"

text \<open>The states at the head of the loop: \<open>reachable cfg L env vbo s0 k s\<close> when \<open>s\<close> is the
  state after \<open>k\<close> passes from \<open>s0\<close>, none of them started with the flag set.\<close>

inductive reachable ::
  "config \<Rightarrow> 'e stdlib \<Rightarrow> environment \<Rightarrow> u32 \<Rightarrow> loop_state \<Rightarrow> nat \<Rightarrow> loop_state \<Rightarrow> bool"
  for cfg L env vbo s0
where
  start: "reachable cfg L env vbo s0 0 s0"
| pass: "reachable cfg L env vbo s0 k s \<Longrightarrow> \<not> should_close s \<Longrightarrow>
           reachable cfg L env vbo s0 (Suc k) (loop_body cfg L env vbo k s)"

text \<open>The state in which \<^verbatim>\<open>main\<close> enters the loop: \<^verbatim>\<open>frame = 0u\<close>, \<^verbatim>\<open>offset = 0u\<close>,
  \<^verbatim>\<open>sum = 0.f\<close>, a window just created (flag clear), and the OpenGL state left by
  \<^verbatim>\<open>CreateRandomPointBuffer(pointCount)\<close>.\<close>

definition loop_start :: "config \<Rightarrow> 'e stdlib \<Rightarrow> gl_state \<Rightarrow> loop_state" where
  "loop_start cfg L gl0 =
     \<lparr>frame = 0, offset = 0, sum_f = [], should_close = False,
      gl = snd (CreateRandomPointBuffer L (pointCount cfg) gl0), alter_calls = []\<rparr>"

definition main_vbo :: "config \<Rightarrow> 'e stdlib \<Rightarrow> gl_state \<Rightarrow> u32" where
  "main_vbo cfg L gl0 = fst (CreateRandomPointBuffer L (pointCount cfg) gl0)"

definition run :: "nat \<Rightarrow> config \<Rightarrow> 'e stdlib \<Rightarrow> environment \<Rightarrow> gl_state \<Rightarrow> loop_state option" where
  "run fuel cfg L env gl0 =
     main_loop fuel cfg L env (main_vbo cfg L gl0) 0 (loop_start cfg L gl0)"

text \<open>
  The cursor test \<^verbatim>\<open>offset + batchSize > pointCount\<close> is computed in \<^verbatim>\<open>unsigned int\<close>.
  \<open>cursor_fits\<close> says that the largest sum the loop forms when it counts up from 0 without
  wrapping, \<open>floor(pointCount / batchSize) * batchSize + batchSize\<close>, is below \<open>2 ^ 32\<close>
  (\<open>pointCount + batchSize < 2 ^ 32\<close> is enough for it). \<open>within_points\<close> says of a logged
  \<^verbatim>\<open>AlterBuffer\<close> call that its window ends inside the buffer, over the naturals.
\<close>

definition cursor_fits :: "config \<Rightarrow> bool" where
  "cursor_fits cfg \<longleftrightarrow>
     unat (pointCount cfg) div unat (batchSize cfg) * unat (batchSize cfg) + unat (batchSize cfg)
       < 2 ^ 32"

definition within_points :: "config \<Rightarrow> u32 \<times> u32 \<times> u32 \<Rightarrow> bool" where
  "within_points cfg c \<longleftrightarrow> unat (fst c) + unat (fst (snd c)) \<le> unat (pointCount cfg)"

text \<open>The two lines written after the loop: \<^verbatim>\<open>sum / static_cast<float>(frame)\<close>, kept as its
  two operands, then \<^verbatim>\<open>frame\<close>.\<close>

datatype out_line = Mean "float32 list" u32 | Count u32

definition report :: "loop_state \<Rightarrow> out_line list" where
  "report s = [Mean (sum_f s) (frame s), Count (frame s)]"

text \<open>What \<^verbatim>\<open>main\<close> writes to standard output, when its loop ends within the fuel. The
  calls of \<^verbatim>\<open>main\<close> that neither the loop's variables nor the point buffer depend on
  (shader program, vertex array object, viewport and clear state, clearing, presenting,
  deleting) have no counterpart in the model.\<close>

definition main :: "nat \<Rightarrow> config \<Rightarrow> 'e stdlib \<Rightarrow> environment \<Rightarrow> gl_state \<Rightarrow> out_line list option" where
  "main fuel cfg L env gl0 = map_option report (run fuel cfg L env gl0)"

section \<open>Sample inputs\<close>

text \<open>
  Concrete inputs to run the model on. \<open>sample_lib\<close> is an instance of the library
  interface: its engine is a linear congruential generator, and a draw takes its 23
  mantissa bits from the engine's state: a float of \<open>[0.5, 1)\<close> when the lower bound is
  \<^verbatim>\<open>0.f\<close> and of \<open>(-1, -0.5]\<close> otherwise, so inside each of the three ranges the program
  draws from. The OpenGL states: a fresh one, one
  in which another buffer exists and five draws have happened, one with a buffer of three
  points under the name 1, and one with a buffer of \<open>2 ^ 29 + 1\<close> points under the name 1.
\<close>

definition sample_lib :: "u32 stdlib" where
  "sample_lib =
     \<lparr>default_engine = 1, seed_engine = (\<lambda>s. s),
      uniform_real =
        (\<lambda>a b e. ((if a = f_zero then 0x3F000000 else 0xBF000000) OR (e AND 0x7FFFFF),
                   16807 * e + 1))\<rparr>"

definition fresh_gl :: gl_state where
  "fresh_gl = \<lparr>buffers = (\<lambda>name. None), array_buffer = 0, next_name = 1, gl_errors = [],
               draw_calls = 0\<rparr>"

definition used_gl :: gl_state where
  "used_gl = fresh_gl\<lparr>buffers := (buffers fresh_gl)(1 \<mapsto> [7, 7, 7]), next_name := 2, draw_calls := 5\<rparr>"

definition small_store :: "byte list" where
  "small_store = replicate 24 7"

definition small_gl :: gl_state where
  "small_gl = fresh_gl\<lparr>buffers := (buffers fresh_gl)(1 \<mapsto> small_store), next_name := 2\<rparr>"

definition big_store :: "byte list" where
  "big_store = replicate (8 * 536870913) 255"

definition big_gl :: gl_state where
  "big_gl = fresh_gl\<lparr>buffers := (buffers fresh_gl)(1 \<mapsto> big_store), next_name := 2\<rparr>"

text \<open>
  Environments: \<open>quiet\<close>, in which nobody closes the window, and \<open>close_at_once\<close>, in which
  the first \<^verbatim>\<open>glfwPollEvents\<close> delivers a close request. Configurations: \<open>scenario\<close>, the
  end-to-end scenario of the specification, \<open>overflow_config\<close>, \<open>2 ^ 30\<close> points in windows
  of \<open>2 ^ 28\<close>, and \<open>wrap_config\<close>, in which \<open>pointCount + batchSize\<close> exceeds \<open>2 ^ 32\<close>;
  \<open>wrap_start\<close> and \<open>wrap_pass\<close> are the loop's first state and its body in that
  configuration. \<open>closed_start\<close> is the state in which \<^verbatim>\<open>main\<close> enters the loop, with the
  window's flag already set: no pass is made from it. \<open>no_window\<close> are the answers of a
  GLFW that cannot create the window.
\<close>

definition quiet :: environment where
  "quiet = \<lparr>close_requested = (\<lambda>k. False), elapsed_ms = (\<lambda>k. f_one)\<rparr>"

definition close_at_once :: environment where
  "close_at_once = \<lparr>close_requested = (\<lambda>k. k = 0), elapsed_ms = (\<lambda>k. f_one)\<rparr>"

definition scenario :: config where
  "scenario = \<lparr>pointCount = 1024, batchSize = 256, BATCHING_TEST = True\<rparr>"

definition overflow_config :: config where
  "overflow_config = \<lparr>pointCount = 0x40000000, batchSize = 0x10000000, BATCHING_TEST = True\<rparr>"

definition wrap_config :: config where
  "wrap_config = \<lparr>pointCount = 0xFFFFFFFF, batchSize = 0x80000000, BATCHING_TEST = True\<rparr>"

definition wrap_start :: loop_state where
  "wrap_start = loop_start wrap_config sample_lib fresh_gl"

definition wrap_pass :: "nat \<Rightarrow> loop_state \<Rightarrow> loop_state" where
  "wrap_pass k s = loop_body wrap_config sample_lib quiet (main_vbo wrap_config sample_lib fresh_gl) k s"


definition no_window :: glfw_answers where
  "no_window = \<lparr>init_result = True, created_window = 0, loader_result = False\<rparr>"

section \<open>Facts about words and the staging vectors\<close>

lemma u32_bound: "unat (w :: u32) < 4294967296"
  using unsigned_less [of w, where ?'a = nat] by simp

lemma unat_succ_below: "(i::u32) < n \<Longrightarrow> unat (i + 1) = Suc (unat i)"
proof -
  assume "i < n"
  then have "unat i < unat n"
    by (simp add: word_less_nat_alt)
  with u32_bound [of n] have "unat i + 1 < 2 ^ 32"
    by simp
  then show ?thesis
    by (simp add: unat_word_ariths)
qed

text \<open>The loop of the source lays out exactly the points of the specification, after
  what the vector held before.\<close>

lemma push_points_spec:
  "i \<le> n \<Longrightarrow>
   push_points xd yd i n e b = b @ interleaved (sample_points xd yd (unat n - unat i) e)"
proof (induction xd yd i n e b rule: push_points.induct)
  case (1 xd yd i n e b)
  show ?case
  proof (cases "i < n")
    case True
    then have suc: "unat (i + 1) = Suc (unat i)"
      by (rule unat_succ_below)
    from True have lt: "unat i < unat n"
      by (simp add: word_less_nat_alt)
    with suc have le: "i + 1 \<le> n"
      by (simp add: word_le_nat_alt)
    from lt suc have diff: "unat n - unat i = Suc (unat n - unat (i + 1))"
      by simp
    have "push_points xd yd i n e b =
      push_points xd yd (i + 1) n (snd (yd (snd (xd e)))) (b @ [fst (xd e), fst (yd (snd (xd e)))])"
      using True by (subst push_points.simps) simp
    also have "\<dots> = (b @ [fst (xd e), fst (yd (snd (xd e)))]) @
        interleaved (sample_points xd yd (unat n - unat (i + 1)) (snd (yd (snd (xd e)))))"
      using "1.IH" [OF True le] .
    finally show ?thesis
      by (simp add: diff interleaved_def)
  next
    case False
    with "1.prems" have "i = n"
      by simp
    then show ?thesis
      by (subst push_points.simps) (simp add: interleaved_def)
  qed
qed

lemma length_sample_points: "length (sample_points xd yd k e) = k"
  by (induction k arbitrary: e) simp_all

lemma length_interleaved: "length (interleaved ps) = 2 * length ps"
  by (induction ps) (simp_all add: interleaved_def)

lemma length_vector_bytes: "length (vector_bytes fs) = 4 * length fs"
  by (induction fs) (simp_all add: vector_bytes_def float_bytes_def)

lemma initial_points_spec:
  "initial_points L count =
     interleaved (sample_points (uniform_real L f_minus_one f_zero) (uniform_real L f_minus_one f_one)
       (unat count) (default_engine L))"
  by (simp add: initial_points_def push_points_spec)

lemma window_points_spec:
  "window_points L bs seed =
     interleaved (sample_points (uniform_real L f_zero f_one) (uniform_real L f_minus_one f_one)
       (unat bs) (seed_engine L seed))"
  by (simp add: window_points_def push_points_spec)

lemma length_initial_points: "length (initial_points L count) = 2 * unat count"
  by (simp add: initial_points_spec length_interleaved length_sample_points)

lemma length_window_points: "length (window_points L bs seed) = 2 * unat bs"
  by (simp add: window_points_spec length_interleaved length_sample_points)

lemma CreateRandomPointBuffer_name:
  "fst (CreateRandomPointBuffer L count g) = next_name g"
  by (simp add: CreateRandomPointBuffer_def glGenBuffers_def Let_def)

lemma CreateRandomPointBuffer_store:
  "next_name g \<noteq> 0 \<Longrightarrow>
   buffers (snd (CreateRandomPointBuffer L count g)) (next_name g) =
     Some (vector_bytes (initial_points L count))"
  by (simp add: CreateRandomPointBuffer_def glGenBuffers_def glBindBuffer_def glBufferData_def
      Let_def length_vector_bytes)

lemma AlterBuffer_offset: "snd (AlterBuffer L vbo off bs seed g) = off + bs"
  by (simp add: AlterBuffer_def Let_def)

lemma AlterBuffer_draw_calls: "draw_calls (fst (AlterBuffer L vbo off bs seed g)) = draw_calls g"
  by (simp add: AlterBuffer_def Let_def glBindBuffer_def glBufferSubData_def split: option.splits)

lemma AlterBuffer_store:
  assumes "vbo \<noteq> 0" and "buffers g vbo = Some store"
    and "unat (off * 8) + unat (bs * 8) \<le> length store"
  shows "buffers (fst (AlterBuffer L vbo off bs seed g)) =
    (buffers g)(vbo \<mapsto> take (unat (off * 8)) store
       @ take (unat (bs * 8)) (vector_bytes (window_points L bs seed))
       @ drop (unat (off * 8) + unat (bs * 8)) store)"
  using assms by (simp add: AlterBuffer_def Let_def glBindBuffer_def glBufferSubData_def)

lemma AlterBuffer_errors:
  assumes "vbo \<noteq> 0" and "buffers g vbo = Some store"
    and "unat (off * 8) + unat (bs * 8) \<le> length store"
  shows "gl_errors (fst (AlterBuffer L vbo off bs seed g)) = gl_errors g"
  using assms by (simp add: AlterBuffer_def Let_def glBindBuffer_def glBufferSubData_def)

lemma unat_times_8: "8 * unat (w :: u32) < 2 ^ 32 \<Longrightarrow> unat (w * 8) = 8 * unat w"
proof -
  assume "8 * unat w < 2 ^ 32"
  then have "unat w * unat (8 :: u32) < 2 ^ LENGTH(32)"
    by (simp add: mult.commute)
  then have "unat (w * 8) = unat w * unat (8 :: u32)"
    by (simp only: unat_mult_lem)
  then show ?thesis
    by simp
qed

lemma window_data: "vector_bytes (window_points sample_lib 1 0) = [0, 0, 0, 63, 1, 0, 0, 191]"
  by code_simp

lemma CreateRandomPointBuffer_draw_calls:
  "draw_calls (snd (CreateRandomPointBuffer L count g)) = draw_calls g"
  by (simp add: CreateRandomPointBuffer_def Let_def glGenBuffers_def glBindBuffer_def glBufferData_def)

lemma loop_body_mutate:
  assumes "BATCHING_TEST cfg" and "\<not> (offset s + batchSize cfg > pointCount cfg)"
  shows "offset (loop_body cfg L env vbo k s) = offset s + batchSize cfg"
    and "frame (loop_body cfg L env vbo k s) = frame s + 1"
    and "should_close (loop_body cfg L env vbo k s) = (should_close s \<or> close_requested env k)"
    and "alter_calls (loop_body cfg L env vbo k s) = alter_calls s @ [(offset s, batchSize cfg, frame s)]"
    and "sum_f (loop_body cfg L env vbo k s) = sum_f s @ [elapsed_ms env k]"
    and "draw_calls (gl (loop_body cfg L env vbo k s)) = Suc (draw_calls (gl s))"
  using assms
  by (simp_all add: loop_body_def poll_events_def batching_step_def render_pass_def glDrawArrays_def
      AlterBuffer_offset AlterBuffer_draw_calls Let_def)

lemma loop_body_exhausted:
  assumes "BATCHING_TEST cfg" and "offset s + batchSize cfg > pointCount cfg"
  shows "offset (loop_body cfg L env vbo k s) = offset s"
    and "frame (loop_body cfg L env vbo k s) = frame s + 1"
    and "should_close (loop_body cfg L env vbo k s)"
    and "alter_calls (loop_body cfg L env vbo k s) = alter_calls s"
    and "sum_f (loop_body cfg L env vbo k s) = sum_f s @ [elapsed_ms env k]"
    and "draw_calls (gl (loop_body cfg L env vbo k s)) = Suc (draw_calls (gl s))"
  using assms
  by (simp_all add: loop_body_def poll_events_def batching_step_def render_pass_def glDrawArrays_def
      Let_def)

lemma loop_body_plain:
  assumes "\<not> BATCHING_TEST cfg"
  shows "offset (loop_body cfg L env vbo k s) = offset s"
    and "frame (loop_body cfg L env vbo k s) = frame s + 1"
    and "should_close (loop_body cfg L env vbo k s) = (should_close s \<or> close_requested env k)"
    and "alter_calls (loop_body cfg L env vbo k s) = alter_calls s"
    and "sum_f (loop_body cfg L env vbo k s) = sum_f s @ [elapsed_ms env k]"
    and "draw_calls (gl (loop_body cfg L env vbo k s)) = Suc (draw_calls (gl s))"
  using assms
  by (simp_all add: loop_body_def poll_events_def render_pass_def glDrawArrays_def Let_def)

lemma unat_add_fits:
  "unat (a :: u32) + unat b < 2 ^ 32 \<Longrightarrow> unat (a + b) = unat a + unat b"
  using unat_add_lem [of a b] by simp

lemma test_fits:
  "unat (a :: u32) + unat b < 2 ^ 32 \<Longrightarrow> (a + b > p) = (unat a + unat b > unat p)"
  by (simp add: word_less_nat_alt unat_add_fits)

lemma main_loop_more_fuel:
  "main_loop fuel cfg L env vbo k s = Some s' \<Longrightarrow> main_loop (fuel + extra) cfg L env vbo k s = Some s'"
  by (induction fuel cfg L env vbo k s rule: main_loop.induct) (auto split: if_splits)

lemma main_loop_countdown:
  assumes bt: "BATCHING_TEST cfg" and quiet: "\<forall>k. \<not> close_requested env k"
  shows "\<not> should_close s \<Longrightarrow>
     unat (offset s) + m * unat (batchSize cfg) \<le> unat (pointCount cfg) \<Longrightarrow>
     unat (pointCount cfg) < unat (offset s) + m * unat (batchSize cfg) + unat (batchSize cfg) \<Longrightarrow>
     unat (offset s) + m * unat (batchSize cfg) + unat (batchSize cfg) < 2 ^ 32 \<Longrightarrow>
     \<exists>s'. main_loop (m + 2) cfg L env vbo k s = Some s' \<and> should_close s'
       \<and> offset s' = offset s + of_nat m * batchSize cfg
       \<and> frame s' = frame s + of_nat (m + 1)
       \<and> alter_calls s' = alter_calls s @
            map (\<lambda>i. (offset s + of_nat i * batchSize cfg, batchSize cfg, frame s + of_nat i)) [0..<m]
       \<and> sum_f s' = sum_f s @ map (elapsed_ms env) [k..<k + m + 1]
       \<and> draw_calls (gl s') = draw_calls (gl s) + m + 1"
proof (induction m arbitrary: s k)
  case 0
  let ?t = "loop_body cfg L env vbo k s"
  from 0 have "offset s + batchSize cfg > pointCount cfg"
    by (simp add: test_fits)
  note ex = loop_body_exhausted [OF bt this, of L env vbo k]
  have "main_loop 2 cfg L env vbo k s = Some ?t"
    using 0(1) ex(3) by (simp add: numeral_2_eq_2)
  with ex 0(1) show ?case
    by simp
next
  case (Suc m)
  let ?t = "loop_body cfg L env vbo k s"
  let ?b = "unat (batchSize cfg)"
  from Suc.prems have fits: "unat (offset s) + ?b < 2 ^ 32" and le: "unat (offset s) + ?b \<le> unat (pointCount cfg)"
    by simp_all
  then have "\<not> (offset s + batchSize cfg > pointCount cfg)"
    by (simp add: test_fits)
  note mu = loop_body_mutate [OF bt this, of L env vbo k]
  have off: "unat (offset ?t) = unat (offset s) + ?b"
    using fits by (simp add: mu(1) unat_add_fits)
  have nc: "\<not> should_close ?t"
    using Suc.prems(1) quiet by (simp add: mu(3))
  from Suc.prems have
    "unat (offset ?t) + m * ?b \<le> unat (pointCount cfg)"
    "unat (pointCount cfg) < unat (offset ?t) + m * ?b + ?b"
    "unat (offset ?t) + m * ?b + ?b < 2 ^ 32"
    by (simp_all add: off)
  from Suc.IH [OF nc this, of "Suc k"] obtain s' where
    run: "main_loop (m + 2) cfg L env vbo (Suc k) ?t = Some s'" and sc: "should_close s'"
    and o': "offset s' = offset ?t + of_nat m * batchSize cfg"
    and f': "frame s' = frame ?t + of_nat (m + 1)"
    and a': "alter_calls s' = alter_calls ?t @
            map (\<lambda>i. (offset ?t + of_nat i * batchSize cfg, batchSize cfg, frame ?t + of_nat i)) [0..<m]"
    and s': "sum_f s' = sum_f ?t @ map (elapsed_ms env) [Suc k..<Suc k + m + 1]"
    and d': "draw_calls (gl s') = draw_calls (gl ?t) + m + 1"
    by blast
  have "main_loop (Suc m + 2) cfg L env vbo k s = Some s'"
    using run Suc.prems(1) by simp
  moreover have "offset s' = offset s + of_nat (Suc m) * batchSize cfg"
    by (simp add: o' mu(1) algebra_simps)
  moreover have "frame s' = frame s + of_nat (Suc m + 1)"
    by (simp add: f' mu(2))
  moreover have "alter_calls s' = alter_calls s @
            map (\<lambda>i. (offset s + of_nat i * batchSize cfg, batchSize cfg, frame s + of_nat i)) [0..<Suc m]"
    by (simp add: a' mu(1,2,4) map_upt_Suc algebra_simps del: upt_Suc)
  moreover have "sum_f s' = sum_f s @ map (elapsed_ms env) [k..<k + Suc m + 1]"
    by (simp add: s' mu(5) upt_conv_Cons del: upt_Suc)
  moreover have "draw_calls (gl s') = draw_calls (gl s) + Suc m + 1"
    by (simp add: d' mu(6))
  ultimately show ?case
    using sc by blast
qed

lemma div_bounds:
  "0 < (b :: nat) \<Longrightarrow> p div b * b \<le> p \<and> p < p div b * b + b"
  using dividend_less_div_times [of b p] by (simp add: add.commute)

lemma loop_start_fields:
  "offset (loop_start cfg L g0) = 0" "frame (loop_start cfg L g0) = 0"
  "\<not> should_close (loop_start cfg L g0)" "alter_calls (loop_start cfg L g0) = []"
  "sum_f (loop_start cfg L g0) = []" "draw_calls (gl (loop_start cfg L g0)) = draw_calls g0"
  by (simp_all add: loop_start_def CreateRandomPointBuffer_draw_calls)

lemma benchmark_run:
  assumes bt: "BATCHING_TEST cfg" and pos: "0 < batchSize cfg" and fits: "cursor_fits cfg"
    and quiet: "\<forall>k. \<not> close_requested env k"
  shows "\<exists>s'. run (unat (pointCount cfg) div unat (batchSize cfg) + 2) cfg L env g0 = Some s'
       \<and> should_close s'
       \<and> offset s' = of_nat (unat (pointCount cfg) div unat (batchSize cfg)) * batchSize cfg
       \<and> frame s' = of_nat (unat (pointCount cfg) div unat (batchSize cfg) + 1)
       \<and> alter_calls s' =
            map (\<lambda>i. (of_nat i * batchSize cfg, batchSize cfg, of_nat i))
              [0..<unat (pointCount cfg) div unat (batchSize cfg)]
       \<and> sum_f s' = map (elapsed_ms env) [0..<unat (pointCount cfg) div unat (batchSize cfg) + 1]
       \<and> draw_calls (gl s') = draw_calls g0 + unat (pointCount cfg) div unat (batchSize cfg) + 1"
proof -
  let ?b = "unat (batchSize cfg)" and ?p = "unat (pointCount cfg)"
  let ?s0 = "loop_start cfg L g0"
  from pos have b: "0 < ?b"
    by (simp add: word_less_nat_alt)
  note d = div_bounds [OF b, of ?p]
  from fits have f: "?p div ?b * ?b + ?b < 2 ^ 32"
    by (simp add: cursor_fits_def)
  have "\<not> should_close ?s0"
    and "unat (offset ?s0) + ?p div ?b * ?b \<le> ?p"
    and "?p < unat (offset ?s0) + ?p div ?b * ?b + ?b"
    and "unat (offset ?s0) + ?p div ?b * ?b + ?b < 2 ^ 32"
    using d f by (simp_all add: loop_start_fields)
  from main_loop_countdown [OF bt quiet this, of L "main_vbo cfg L g0" 0]
  show ?thesis
    by (simp add: run_def loop_start_fields)
qed

lemma offset_below_pointCount:
  assumes "reachable cfg L env vbo s0 k s" and "offset s0 = 0"
  shows "offset s \<le> pointCount cfg"
  using assms
proof (induction rule: reachable.induct)
  case start
  then show ?case by simp
next
  case (pass k s)
  show ?case
  proof (cases "BATCHING_TEST cfg")
    case False
    with pass show ?thesis by (simp add: loop_body_plain)
  next
    case True
    show ?thesis
    proof (cases "offset s + batchSize cfg > pointCount cfg")
      case True
      with \<open>BATCHING_TEST cfg\<close> pass show ?thesis by (simp add: loop_body_exhausted)
    next
      case False
      with \<open>BATCHING_TEST cfg\<close> show ?thesis by (simp add: loop_body_mutate)
    qed
  qed
qed

lemma pass_fits:
  assumes fits: "cursor_fits cfg" and mult: "unat (offset s) = j * unat (batchSize cfg)"
    and le: "j * unat (batchSize cfg) \<le> unat (pointCount cfg)"
  shows "unat (offset s) + unat (batchSize cfg) < 2 ^ 32"
proof (cases "unat (batchSize cfg) = 0")
  case True
  then show ?thesis using u32_bound [of "offset s"] by simp
next
  case False
  let ?b = "unat (batchSize cfg)" and ?p = "unat (pointCount cfg)"
  from False have "0 < ?b"
    by simp
  with le have "j \<le> ?p div ?b"
    by (simp add: less_eq_div_iff_mult_less_eq)
  then have "j * ?b \<le> ?p div ?b * ?b"
    by (rule mult_le_mono1)
  moreover from fits have "?p div ?b * ?b + ?b < 2 ^ 32"
    by (simp add: cursor_fits_def)
  ultimately show ?thesis
    using mult by linarith
qed

lemma cursor_multiple:
  assumes fits: "cursor_fits cfg" and reach: "reachable cfg L env vbo s0 k s"
    and "offset s0 = 0" and "alter_calls s0 = []"
  shows "(\<exists>j. unat (offset s) = j * unat (batchSize cfg)
              \<and> j * unat (batchSize cfg) \<le> unat (pointCount cfg))
       \<and> list_all (within_points cfg) (alter_calls s)"
  using reach assms(3,4)
proof (induction rule: reachable.induct)
  case start
  then have "unat (offset s0) = 0 * unat (batchSize cfg)"
    by simp
  moreover have "0 * unat (batchSize cfg) \<le> unat (pointCount cfg)"
    by simp
  moreover from start have "list_all (within_points cfg) (alter_calls s0)"
    by simp
  ultimately show ?case
    by blast
next
  case (pass k s)
  then obtain j where j: "unat (offset s) = j * unat (batchSize cfg)"
      "j * unat (batchSize cfg) \<le> unat (pointCount cfg)"
    and calls: "list_all (within_points cfg) (alter_calls s)"
    by blast
  note nowrap = pass_fits [OF fits j]
  show ?case
  proof (cases "BATCHING_TEST cfg")
    case False
    with j calls show ?thesis by (auto simp add: loop_body_plain)
  next
    case True
    show ?thesis
    proof (cases "offset s + batchSize cfg > pointCount cfg")
      case True
      with \<open>BATCHING_TEST cfg\<close> j calls show ?thesis by (auto simp add: loop_body_exhausted)
    next
      case False
      note mu = loop_body_mutate [OF \<open>BATCHING_TEST cfg\<close> False, of L env vbo k]
      from False nowrap have le: "unat (offset s) + unat (batchSize cfg) \<le> unat (pointCount cfg)"
        by (simp add: test_fits)
      have "unat (offset (loop_body cfg L env vbo k s)) = Suc j * unat (batchSize cfg)"
        using nowrap j(1) by (simp add: mu(1) unat_add_fits)
      moreover have "Suc j * unat (batchSize cfg) \<le> unat (pointCount cfg)"
        using le j(1) by simp
      moreover have "list_all (within_points cfg) (alter_calls (loop_body cfg L env vbo k s))"
        using calls le by (simp add: mu(4) within_points_def)
      ultimately show ?thesis
        by blast
    qed
  qed
qed

lemma never_above_max: "\<not> ((x :: u32) > 0xFFFFFFFF)"
  using u32_bound [of x] by (simp add: word_less_nat_alt)

lemma wrap_pass_fields:
  "offset (wrap_pass k s) = offset s + 0x80000000"
  "frame (wrap_pass k s) = frame s + 1"
  "should_close (wrap_pass k s) = should_close s"
  "alter_calls (wrap_pass k s) = alter_calls s @ [(offset s, 0x80000000, frame s)]"
proof -
  have bt: "BATCHING_TEST wrap_config"
    and test: "\<not> (offset s + batchSize wrap_config > pointCount wrap_config)"
    by (simp_all add: wrap_config_def never_above_max)
  note mu = loop_body_mutate [OF bt test, of sample_lib quiet
      "main_vbo wrap_config sample_lib fresh_gl" k]
  show "offset (wrap_pass k s) = offset s + 0x80000000"
    using mu(1) by (simp add: wrap_pass_def wrap_config_def)
  show "frame (wrap_pass k s) = frame s + 1"
    using mu(2) by (simp add: wrap_pass_def)
  show "should_close (wrap_pass k s) = should_close s"
    using mu(3) by (simp add: wrap_pass_def quiet_def)
  show "alter_calls (wrap_pass k s) = alter_calls s @ [(offset s, 0x80000000, frame s)]"
    using mu(4) by (simp add: wrap_pass_def wrap_config_def)
qed

lemma wrap_never_exits:
  "\<not> should_close s \<Longrightarrow>
   main_loop fuel wrap_config sample_lib quiet (main_vbo wrap_config sample_lib fresh_gl) k s
     = None"
proof (induction fuel arbitrary: k s)
  case 0
  show ?case by simp
next
  case (Suc fuel)
  from Suc.prems have "\<not> should_close (wrap_pass k s)"
    by (simp add: wrap_pass_fields)
  from Suc.IH [OF this, of "Suc k"] Suc.prems show ?case
    by (simp add: wrap_pass_def)
qed

lemma wrap_run_never_exits: "run fuel wrap_config sample_lib quiet fresh_gl = None"
  unfolding run_def by (rule wrap_never_exits) (simp add: loop_start_fields)

lemma wrap_start_fields:
  "offset wrap_start = 0" "frame wrap_start = 0" "\<not> should_close wrap_start"
  "alter_calls wrap_start = []"
  by (simp_all add: wrap_start_def loop_start_fields)

lemma wrap_reachable:
  "reachable wrap_config sample_lib quiet (main_vbo wrap_config sample_lib fresh_gl)
     wrap_start 3 (wrap_pass 2 (wrap_pass 1 (wrap_pass 0 wrap_start)))"
  "reachable wrap_config sample_lib quiet (main_vbo wrap_config sample_lib fresh_gl)
     wrap_start 2 (wrap_pass 1 (wrap_pass 0 wrap_start))"
proof -
  let ?R = "reachable wrap_config sample_lib quiet (main_vbo wrap_config sample_lib fresh_gl)
     wrap_start"
  have r0: "?R 0 wrap_start"
    by (rule reachable.start)
  have r1: "?R (Suc 0) (wrap_pass 0 wrap_start)"
    unfolding wrap_pass_def by (rule reachable.pass [OF r0]) (simp add: wrap_start_fields)
  have r2: "?R (Suc (Suc 0)) (wrap_pass (Suc 0) (wrap_pass 0 wrap_start))"
    unfolding wrap_pass_def
    by (rule reachable.pass [OF r1 [unfolded wrap_pass_def]])
      (simp add: wrap_start_fields wrap_pass_fields [unfolded wrap_pass_def])
  have r3: "?R (Suc (Suc (Suc 0))) (wrap_pass (Suc (Suc 0)) (wrap_pass (Suc 0) (wrap_pass 0 wrap_start)))"
    unfolding wrap_pass_def
    by (rule reachable.pass [OF r2 [unfolded wrap_pass_def]])
      (simp add: wrap_start_fields wrap_pass_fields [unfolded wrap_pass_def])
  from r2 show "?R 2 (wrap_pass 1 (wrap_pass 0 wrap_start))"
    by (simp add: numeral_2_eq_2)
  from r3 show "?R 3 (wrap_pass 2 (wrap_pass 1 (wrap_pass 0 wrap_start)))"
    by (simp add: numeral_2_eq_2 numeral_3_eq_3)
qed

section \<open>Facts about the float order, the loop's counters and the cursor test\<close>

lemma key_of_bounds:
  "key_of 0 = 0" "key_of 1065353216 = 1065353216" "key_of 3212836864 = - 1065353216"
  by (simp_all add: key_of_def magnitude_bits_def)

lemma key_of_cases:
  assumes "n < 4294967296"
  shows "(\<not> 2139095040 < magnitude_bits n \<and> 0 \<le> key_of n \<and> key_of n < 1065353216)
           \<longleftrightarrow> n < 1065353216 \<or> n = 2147483648"
    and "(\<not> 2139095040 < magnitude_bits n \<and> - 1065353216 \<le> key_of n \<and> key_of n < 0)
           \<longleftrightarrow> 2147483648 < n \<and> n \<le> 3212836864"
    and "(\<not> 2139095040 < magnitude_bits n \<and> - 1065353216 \<le> key_of n \<and> key_of n < 1065353216)
           \<longleftrightarrow> n < 1065353216 \<or> (2147483648 \<le> n \<and> n \<le> 3212836864)"
  using assms by (auto simp add: key_of_def magnitude_bits_def)

lemma float_in_unit: "float_in f_zero f_one w \<longleftrightarrow> unat w < 1065353216 \<or> unat w = 2147483648"
  using key_of_cases(1) [OF u32_bound, of w]
  by (simp add: float_in_def is_nan_def float_key_def f_zero_def f_one_def key_of_bounds)

lemma float_in_negative:
  "float_in f_minus_one f_zero w \<longleftrightarrow> 2147483648 < unat w \<and> unat w \<le> 3212836864"
  using key_of_cases(2) [OF u32_bound, of w]
  by (simp add: float_in_def is_nan_def float_key_def f_zero_def f_minus_one_def key_of_bounds)

lemma float_in_square:
  "float_in f_minus_one f_one w \<longleftrightarrow>
     unat w < 1065353216 \<or> (2147483648 \<le> unat w \<and> unat w \<le> 3212836864)"
  using key_of_cases(3) [OF u32_bound, of w]
  by (simp add: float_in_def is_nan_def float_key_def f_one_def f_minus_one_def key_of_bounds)

lemma mantissa_bound: "unat ((e :: u32) AND 0x7FFFFF) \<le> 8388607"
proof -
  have "e AND 0x7FFFFF \<le> 0x7FFFFF"
    by (rule word_and_le1)
  then show ?thesis
    by (simp add: word_le_nat_alt)
qed

lemma or_mantissa:
  assumes "c AND (0x7FFFFF :: u32) = 0" and "unat c + 8388607 < 2 ^ 32"
  shows "unat (c OR (e AND 0x7FFFFF)) = unat c + unat (e AND 0x7FFFFF)"
proof -
  have "c AND (e AND 0x7FFFFF) = e AND (c AND 0x7FFFFF)"
    by (simp add: ac_simps)
  with assms(1) have "c AND (e AND 0x7FFFFF) = 0"
    by simp
  with word_plus_and_or [of c "e AND 0x7FFFFF"] have "c OR (e AND 0x7FFFFF) = c + (e AND 0x7FFFFF)"
    by simp
  moreover have "unat c + unat (e AND 0x7FFFFF) < 2 ^ 32"
    using assms(2) mantissa_bound [of e] by simp
  ultimately show ?thesis
    by (simp add: unat_add_fits)
qed

lemma distinct_bounds: "f_minus_one \<noteq> f_zero"
  by (simp add: f_minus_one_def f_zero_def)

lemma sample_lib_contract: "range_contract sample_lib"
proof -
  have pos: "unat ((0x3F000000 :: u32) OR (e AND 0x7FFFFF)) = 1056964608 + unat (e AND 0x7FFFFF)" for e :: u32
    using or_mantissa [of "0x3F000000" e] by simp
  have neg: "unat ((0xBF000000 :: u32) OR (e AND 0x7FFFFF)) = 3204448256 + unat (e AND 0x7FFFFF)" for e :: u32
    using or_mantissa [of "0xBF000000" e] by simp
  have "float_in f_zero f_one (fst (uniform_real sample_lib f_zero f_one e))"
    and "float_in f_minus_one f_zero (fst (uniform_real sample_lib f_minus_one f_zero e))"
    and "float_in f_minus_one f_one (fst (uniform_real sample_lib f_minus_one f_one e))" for e
    using mantissa_bound [of e] distinct_bounds
    by (simp_all add: sample_lib_def float_in_unit float_in_negative float_in_square pos neg)
  then show ?thesis
    by (simp add: range_contract_def)
qed

lemma sample_points_all:
  assumes "\<And>e. P (fst (xd e))" and "\<And>e. Q (fst (yd e))"
  shows "list_all (\<lambda>p. P (fst p) \<and> Q (snd p)) (sample_points xd yd k e)"
  using assms by (induction k arbitrary: e) simp_all

lemma interleaved_nth:
  "i < length ps \<Longrightarrow>
   interleaved ps ! (2 * i) = fst (ps ! i) \<and> interleaved ps ! (2 * i + 1) = snd (ps ! i)"
proof (induction ps arbitrary: i)
  case Nil
  then show ?case by simp
next
  case (Cons p ps)
  show ?case
  proof (cases i)
    case 0
    then show ?thesis by (simp add: interleaved_def)
  next
    case (Suc j)
    with Cons.prems have "j < length ps" by simp
    from Cons.IH [OF this] Suc show ?thesis
      by (simp add: interleaved_def)
  qed
qed

lemma drawn_points_in_range:
  assumes "\<And>e. P (fst (xd e))" and "\<And>e. Q (fst (yd e))" and "i < k"
  shows "P (interleaved (sample_points xd yd k e) ! (2 * i))
       \<and> Q (interleaved (sample_points xd yd k e) ! (2 * i + 1))"
proof -
  have "list_all (\<lambda>p. P (fst p) \<and> Q (snd p)) (sample_points xd yd k e)"
    using assms(1,2) by (rule sample_points_all)
  with assms(3) have "P (fst (sample_points xd yd k e ! i)) \<and> Q (snd (sample_points xd yd k e ! i))"
    by (simp add: list_all_length length_sample_points)
  moreover from assms(3) have "i < length (sample_points xd yd k e)"
    by (simp add: length_sample_points)
  from interleaved_nth [OF this]
  have "interleaved (sample_points xd yd k e) ! (2 * i) = fst (sample_points xd yd k e ! i)"
    and "interleaved (sample_points xd yd k e) ! (2 * i + 1) = snd (sample_points xd yd k e ! i)"
    by blast+
  ultimately show ?thesis
    by (simp only:)
qed




lemma cursor_fits_below:
  assumes "unat (pointCount cfg) < 2 ^ 31"
  shows "cursor_fits cfg"
proof -
  let ?p = "unat (pointCount cfg)" and ?b = "unat (batchSize cfg)"
  show ?thesis
  proof (cases "?b \<le> ?p")
    case True
    have le: "?p div ?b * ?b \<le> ?p"
      by simp
    from assms have "?p < 2147483648"
      by simp
    with le True have "?p div ?b * ?b + ?b < 4294967296"
      by linarith
    then show ?thesis
      by (simp add: cursor_fits_def)
  next
    case False
    then have "?p div ?b = 0"
      by simp
    then show ?thesis
      using u32_bound [of "batchSize cfg"] by (simp add: cursor_fits_def)
  qed
qed

section \<open>The size of the buffer that CreateRandomPointBuffer creates\<close>

text \<open>
  C9. For every \<open>count\<close>, when \<^verbatim>\<open>glGenBuffers\<close> hands out a buffer name (a non-zero one),
  the data store that \<^verbatim>\<open>CreateRandomPointBuffer(count)\<close> leaves under the name it returns
  is the staging vector's bytes, \<open>count * 2 * sizeof(float)\<close> of them; the staging vector
  holds \<open>2 * count\<close> floats, and they are the \<open>count\<close> points drawn in order, each as its
  \<open>x\<close> followed by its \<open>y\<close>.
\<close>

theorem createBuffer_size:
  assumes "next_name g \<noteq> 0"
  shows "buffers (snd (CreateRandomPointBuffer L count g)) (fst (CreateRandomPointBuffer L count g))
           = Some (vector_bytes (initial_points L count))
       \<and> length (vector_bytes (initial_points L count)) = unat count * 2 * 4
       \<and> length (initial_points L count) = 2 * unat count
       \<and> initial_points L count =
           interleaved (sample_points (uniform_real L f_minus_one f_zero)
             (uniform_real L f_minus_one f_one) (unat count) (default_engine L))"
proof -
  have "length (vector_bytes (initial_points L count)) = unat count * 2 * 4"
    by (simp add: length_vector_bytes length_initial_points)
  with assms show ?thesis
    by (simp add: CreateRandomPointBuffer_name CreateRandomPointBuffer_store
        length_initial_points initial_points_spec [symmetric])
qed

theorem createBuffer_size_witness:
  "next_name fresh_gl \<noteq> 0
   \<and> buffers (snd (CreateRandomPointBuffer sample_lib 3 fresh_gl))
        (fst (CreateRandomPointBuffer sample_lib 3 fresh_gl))
      = Some (vector_bytes (initial_points sample_lib 3))
   \<and> length (vector_bytes (initial_points sample_lib 3)) = 24
   \<and> length (initial_points sample_lib 3) = 6"
  using createBuffer_size [of fresh_gl sample_lib 3]
  by (simp add: fresh_gl_def length_vector_bytes length_interleaved length_sample_points)

section \<open>The byte range that AlterBuffer overwrites\<close>

text \<open>
  Where the byte offsets fit. Let \<open>vbo\<close> name a buffer of \<open>count\<close> points (\<open>8 * count\<close> bytes),
  let \<open>offset + batchSize \<le> count\<close>, and let the two products the code forms in
  \<^verbatim>\<open>unsigned int\<close>, \<^verbatim>\<open>offset * 8\<close> and \<^verbatim>\<open>batchSize * 8\<close>, stay below \<open>2 ^ 32\<close>. Then
  \<^verbatim>\<open>AlterBuffer\<close> replaces exactly the bytes \<open>[offset * 8, (offset + batchSize) * 8)\<close> of that
  buffer by the \<open>batchSize * 8\<close> bytes of the fresh points: the store keeps its length,
  every byte outside the range is the byte that was there, no other buffer changes and no
  OpenGL error is recorded.
\<close>

theorem writeWindow_isolation:
  assumes "vbo \<noteq> 0" and "buffers g vbo = Some store" and "length store = 8 * count"
    and "unat off + unat bs \<le> count"
    and "8 * unat off < 2 ^ 32" and "8 * unat bs < 2 ^ 32"
  shows "buffers (fst (AlterBuffer L vbo off bs seed g)) =
           (buffers g)(vbo \<mapsto>
              overwrite_range (8 * unat off) (vector_bytes (window_points L bs seed)) store)
       \<and> length (vector_bytes (window_points L bs seed)) = 8 * unat bs
       \<and> length (overwrite_range (8 * unat off) (vector_bytes (window_points L bs seed)) store)
           = length store
       \<and> (\<forall>i < length store.
            overwrite_range (8 * unat off) (vector_bytes (window_points L bs seed)) store ! i =
              (if 8 * unat off \<le> i \<and> i < 8 * (unat off + unat bs)
               then vector_bytes (window_points L bs seed) ! (i - 8 * unat off)
               else store ! i))
       \<and> gl_errors (fst (AlterBuffer L vbo off bs seed g)) = gl_errors g"
proof -
  let ?data = "vector_bytes (window_points L bs seed)"
  have len: "length ?data = 8 * unat bs"
    by (simp add: length_vector_bytes length_window_points)
  have o8: "unat (off * 8) = 8 * unat off" and b8: "unat (bs * 8) = 8 * unat bs"
    using assms(5,6) by (simp_all add: unat_times_8)
  have range: "unat (off * 8) + unat (bs * 8) \<le> length store"
    using assms(3,4) by (simp add: o8 b8)
  have store: "buffers (fst (AlterBuffer L vbo off bs seed g)) =
           (buffers g)(vbo \<mapsto> overwrite_range (8 * unat off) ?data store)"
    using AlterBuffer_store [OF assms(1,2) range, of L seed]
    by (simp add: o8 b8 len overwrite_range_def)
  have same_len: "length (overwrite_range (8 * unat off) ?data store) = length store"
    using range by (simp add: overwrite_range_def len o8 b8)
  have bytes: "\<forall>i < length store.
            overwrite_range (8 * unat off) ?data store ! i =
              (if 8 * unat off \<le> i \<and> i < 8 * (unat off + unat bs)
               then ?data ! (i - 8 * unat off) else store ! i)"
    using range by (auto simp add: overwrite_range_def len o8 b8 nth_append)
  from store len same_len bytes AlterBuffer_errors [OF assms(1,2) range, of L seed]
  show ?thesis
    by blast
qed

text \<open>The theorem at a buffer of three points, rewriting the second one.\<close>

theorem writeWindow_isolation_example:
  "(1 :: u32) \<noteq> 0 \<and> buffers small_gl 1 = Some small_store \<and> length small_store = 8 * 3
   \<and> unat (1 :: u32) + unat (1 :: u32) \<le> 3
   \<and> 8 * unat (1 :: u32) < (2 :: nat) ^ 32
   \<and> buffers (fst (AlterBuffer sample_lib 1 1 1 0 small_gl)) 1 =
       Some (replicate 8 7 @ [0, 0, 0, 63, 1, 0, 0, 191] @ replicate 8 7)"
proof -
  have st: "buffers small_gl 1 = Some small_store"
    by (simp add: small_gl_def)
  have len: "length small_store = 8 * 3"
    by (simp add: small_store_def)
  have fit: "8 * unat (1 :: u32) < (2 :: nat) ^ 32"
    by simp
  have "(1 :: u32) \<noteq> 0" and "unat (1 :: u32) + unat (1 :: u32) \<le> 3"
    by simp_all
  from writeWindow_isolation [OF this(1) st len this(2) fit fit, of sample_lib 0]
  have "buffers (fst (AlterBuffer sample_lib 1 1 1 0 small_gl)) 1 =
      Some (overwrite_range 8 [0, 0, 0, 63, 1, 0, 0, 191] small_store)"
    by (simp add: window_data)
  then show ?thesis
    using st len by (simp add: overwrite_range_def small_store_def)
qed

text \<open>
  C2. The claim is that for every \<open>offset\<close> and \<open>batchSize\<close> with
  \<open>offset + batchSize \<le> count\<close>, \<^verbatim>\<open>AlterBuffer\<close> overwrites exactly the bytes
  \<open>[offset * 8, (offset + batchSize) * 8)\<close> and no other. The code breaks it from
  \<open>offset = 2 ^ 29\<close> on: \<^verbatim>\<open>offset * 8\<close> is formed in \<^verbatim>\<open>unsigned int\<close> and wraps before it is
  widened to the byte offset of \<^verbatim>\<open>glBufferSubData\<close>. In a buffer of \<open>2 ^ 29 + 1\<close> points,
  \<^verbatim>\<open>AlterBuffer\<close> with \<open>offset = 2 ^ 29\<close> and \<open>batchSize = 1\<close> is within the buffer, but the byte
  offset it passes is 0: the call overwrites the first point, the bytes \<open>[0, 8)\<close>, and leaves
  the last point, the bytes from \<open>2 ^ 32\<close> on, as it was. The loop of \<^verbatim>\<open>main\<close> reaches this
  offset: with \<open>2 ^ 30\<close> points in windows of \<open>2 ^ 28\<close>, where the cursor test does not wrap,
  its third call is made at \<open>offset = 2 ^ 29\<close>.
\<close>

theorem AlterBuffer_byte_offset_wraps:
  "unat (0x20000000 :: u32) + unat (1 :: u32) \<le> 536870913
   \<and> buffers big_gl 1 = Some big_store
   \<and> length big_store = 8 * 536870913
   \<and> unat ((0x20000000 :: u32) * 8) = 0
   \<and> buffers (fst (AlterBuffer sample_lib 1 0x20000000 1 0 big_gl)) 1 =
       Some ([0, 0, 0, 63, 1, 0, 0, 191] @ replicate 4294967296 255)
   \<and> buffers (fst (AlterBuffer sample_lib 1 0x20000000 1 0 big_gl)) 1 \<noteq>
       Some (overwrite_range (8 * unat (0x20000000 :: u32))
         (vector_bytes (window_points sample_lib 1 0)) big_store)
   \<and> cursor_fits overflow_config
   \<and> (\<exists>s'. run 6 overflow_config sample_lib quiet fresh_gl = Some s'
          \<and> alter_calls s' ! 2 = (0x20000000, 0x10000000, 2))"
proof -
  have st: "buffers big_gl 1 = Some big_store"
    by (simp add: big_gl_def)
  have len: "length big_store = 4294967304"
    by (simp add: big_store_def)
  have rng: "unat ((0x20000000 :: u32) * 8) + unat ((1 :: u32) * 8) \<le> length big_store"
    by (simp add: len)
  have new: "buffers (fst (AlterBuffer sample_lib 1 0x20000000 1 0 big_gl)) 1 =
       Some ([0, 0, 0, 63, 1, 0, 0, 191] @ replicate 4294967296 255)"
    using AlterBuffer_store [OF _ st rng, of sample_lib 0]
    by (simp add: window_data big_store_def)
  have "hd ([0, 0, 0, 63, 1, 0, 0, 191] @ replicate 4294967296 (255 :: byte)) \<noteq>
        hd (overwrite_range (8 * unat (0x20000000 :: u32))
         (vector_bytes (window_points sample_lib 1 0)) big_store)"
    by (simp add: overwrite_range_def window_data big_store_def)
  then have differ: "[0, 0, 0, 63, 1, 0, 0, 191] @ replicate 4294967296 (255 :: byte) \<noteq>
        overwrite_range (8 * unat (0x20000000 :: u32))
         (vector_bytes (window_points sample_lib 1 0)) big_store"
    by metis
  have h: "BATCHING_TEST overflow_config" "0 < batchSize overflow_config"
    "cursor_fits overflow_config" "\<forall>k. \<not> close_requested quiet k"
    by (simp_all add: overflow_config_def quiet_def cursor_fits_def)
  have q: "unat (pointCount overflow_config) div unat (batchSize overflow_config) = 4"
    by (simp add: overflow_config_def)
  from benchmark_run [OF h, of sample_lib fresh_gl] obtain s' where
    r: "run (4 + 2) overflow_config sample_lib quiet fresh_gl = Some s'" and
    a: "alter_calls s' = map (\<lambda>i. (of_nat i * batchSize overflow_config,
          batchSize overflow_config, of_nat i)) [0..<4]"
    unfolding q by blast
  have "alter_calls s' ! 2 = (0x20000000, 0x10000000, 2)"
    by (simp add: a overflow_config_def)
  with r have "\<exists>s'. run 6 overflow_config sample_lib quiet fresh_gl = Some s'
          \<and> alter_calls s' ! 2 = (0x20000000, 0x10000000, 2)"
    by auto
  with new differ st len h(3) show ?thesis
    by simp
qed

section \<open>AlterBuffer is determined by its seed\<close>

text \<open>
  C5. Two calls of \<^verbatim>\<open>AlterBuffer\<close> with the same \<open>seed\<close> and the same \<open>batchSize\<close> write the
  same bytes, whatever the two offsets, the two buffers and the OpenGL states the calls
  start in: when each call's byte range lies inside its buffer, the bytes found in the
  two ranges afterwards are equal, and they are the bytes of the points generated from
  \<open>seed\<close>.
\<close>

theorem writeWindow_deterministic:
  assumes "vbo1 \<noteq> 0" and "buffers g1 vbo1 = Some store1"
    and "unat (off1 * 8) + unat (bs * 8) \<le> length store1"
    and "vbo2 \<noteq> 0" and "buffers g2 vbo2 = Some store2"
    and "unat (off2 * 8) + unat (bs * 8) \<le> length store2"
  shows "stored_range (fst (AlterBuffer L vbo1 off1 bs seed g1)) vbo1 (unat (off1 * 8)) (unat (bs * 8))
       = stored_range (fst (AlterBuffer L vbo2 off2 bs seed g2)) vbo2 (unat (off2 * 8)) (unat (bs * 8))
     \<and> stored_range (fst (AlterBuffer L vbo1 off1 bs seed g1)) vbo1 (unat (off1 * 8)) (unat (bs * 8))
       = Some (take (unat (bs * 8)) (vector_bytes (window_points L bs seed)))"
proof -
  have le: "unat (bs * 8) \<le> length (vector_bytes (window_points L bs seed))"
  proof -
    have "unat (bs * 8) \<le> unat bs * unat (8 :: u32)"
      by (simp add: unat_word_ariths)
    then show ?thesis
      by (simp add: length_vector_bytes length_window_points)
  qed
  have one: "stored_range (fst (AlterBuffer L vbo off bs seed g)) vbo (unat (off * 8)) (unat (bs * 8))
       = Some (take (unat (bs * 8)) (vector_bytes (window_points L bs seed)))"
    if "vbo \<noteq> 0" and "buffers g vbo = Some store"
      and "unat (off * 8) + unat (bs * 8) \<le> length store"
    for vbo g store off
    using AlterBuffer_store [OF that, of L seed] that(3) le
    by (simp add: stored_range_def)
  from one [OF assms(1,2,3)] one [OF assms(4,5,6)] show ?thesis
    by simp
qed

text \<open>The theorem at two different buffers and offsets, with seed 9.\<close>

theorem writeWindow_deterministic_witness:
  "(1 :: u32) \<noteq> 0 \<and> buffers small_gl 1 = Some small_store
   \<and> unat ((0 :: u32) * 8) + unat ((1 :: u32) * 8) \<le> length small_store
   \<and> buffers big_gl 1 = Some big_store
   \<and> unat ((2 :: u32) * 8) + unat ((1 :: u32) * 8) \<le> length big_store
   \<and> stored_range (fst (AlterBuffer sample_lib 1 0 1 9 small_gl)) 1 0 8
       = stored_range (fst (AlterBuffer sample_lib 1 2 1 9 big_gl)) 1 16 8"
proof -
  have s1: "buffers small_gl 1 = Some small_store" and s2: "buffers big_gl 1 = Some big_store"
    by (simp_all add: small_gl_def big_gl_def)
  have r1: "unat ((0 :: u32) * 8) + unat ((1 :: u32) * 8) \<le> length small_store"
    and r2: "unat ((2 :: u32) * 8) + unat ((1 :: u32) * 8) \<le> length big_store"
    by (simp_all add: small_store_def big_store_def)
  have nz: "(1 :: u32) \<noteq> 0"
    by simp
  from writeWindow_deterministic [OF nz s1 r1 nz s2 r2, of sample_lib 9]
  show ?thesis
    using s1 s2 r1 r2 by simp
qed

section \<open>The ranges of the coordinates\<close>

text \<open>
  C4. When the library keeps the contract of \<^verbatim>\<open>std::uniform_real_distribution\<close> at the
  bounds the program draws with, every point that \<^verbatim>\<open>AlterBuffer\<close> generates has its \<open>x\<close>
  (the float at an even position of the staging vector) in \<open>[0, 1)\<close> and every point of the
  initial fill has its \<open>x\<close> in \<open>[-1, 0)\<close>; every \<open>y\<close> (the float at an odd position) of
  either lies in \<open>[-1, 1)\<close>. The two ranges of \<open>x\<close> have no float in common.
\<close>

theorem coordinate_ranges:
  assumes "range_contract L"
  shows "(\<forall>i < unat bs.
            float_in f_zero f_one (window_points L bs seed ! (2 * i))
          \<and> float_in f_minus_one f_one (window_points L bs seed ! (2 * i + 1)))
       \<and> (\<forall>i < unat count.
            float_in f_minus_one f_zero (initial_points L count ! (2 * i))
          \<and> float_in f_minus_one f_one (initial_points L count ! (2 * i + 1)))
       \<and> (\<forall>w. \<not> (float_in f_zero f_one w \<and> float_in f_minus_one f_zero w))"
proof -
  from assms have
    x1: "\<And>e. float_in f_zero f_one (fst (uniform_real L f_zero f_one e))" and
    x0: "\<And>e. float_in f_minus_one f_zero (fst (uniform_real L f_minus_one f_zero e))" and
    y: "\<And>e. float_in f_minus_one f_one (fst (uniform_real L f_minus_one f_one e))"
    by (simp_all add: range_contract_def)
  have "\<forall>i < unat bs.
            float_in f_zero f_one (window_points L bs seed ! (2 * i))
          \<and> float_in f_minus_one f_one (window_points L bs seed ! (2 * i + 1))"
    unfolding window_points_spec
    using drawn_points_in_range [where P = "float_in f_zero f_one"
        and Q = "float_in f_minus_one f_one" and xd = "uniform_real L f_zero f_one"
        and yd = "uniform_real L f_minus_one f_one", OF x1 y]
    by blast
  moreover have "\<forall>i < unat count.
            float_in f_minus_one f_zero (initial_points L count ! (2 * i))
          \<and> float_in f_minus_one f_one (initial_points L count ! (2 * i + 1))"
    unfolding initial_points_spec
    using drawn_points_in_range [where P = "float_in f_minus_one f_zero"
        and Q = "float_in f_minus_one f_one" and xd = "uniform_real L f_minus_one f_zero"
        and yd = "uniform_real L f_minus_one f_one", OF x0 y]
    by blast
  moreover have "\<forall>w. \<not> (float_in f_zero f_one w \<and> float_in f_minus_one f_zero w)"
    by (auto simp add: float_in_unit float_in_negative)
  ultimately show ?thesis
    by blast
qed

text \<open>The theorem at the sample library, which keeps the contract: the second point of a
  window of two and of an initial fill of two.\<close>

theorem coordinate_ranges_witness:
  "range_contract sample_lib
   \<and> float_in f_zero f_one (window_points sample_lib 2 7 ! 2)
   \<and> float_in f_minus_one f_one (window_points sample_lib 2 7 ! 3)
   \<and> float_in f_minus_one f_zero (initial_points sample_lib 2 ! 2)
   \<and> float_in f_minus_one f_one (initial_points sample_lib 2 ! 3)
   \<and> \<not> (float_in f_zero f_one f_minus_one \<and> float_in f_minus_one f_zero f_minus_one)"
proof -
  note r = coordinate_ranges [OF sample_lib_contract, of 2 7 2]
  have one: "(1 :: nat) < unat (2 :: u32)"
    by simp
  from r one have "float_in f_zero f_one (window_points sample_lib 2 7 ! (2 * 1))
      \<and> float_in f_minus_one f_one (window_points sample_lib 2 7 ! (2 * 1 + 1))"
    by blast
  moreover from r one have "float_in f_minus_one f_zero (initial_points sample_lib 2 ! (2 * 1))
      \<and> float_in f_minus_one f_one (initial_points sample_lib 2 ! (2 * 1 + 1))"
    by blast
  moreover from r have "\<not> (float_in f_zero f_one f_minus_one \<and> float_in f_minus_one f_zero f_minus_one)"
    by blast
  ultimately show ?thesis
    using sample_lib_contract by simp
qed

section \<open>The engine of the initial fill\<close>

text \<open>
  C6, as the code has it. \<^verbatim>\<open>CreateRandomPointBuffer\<close> default-constructs its engine: it
  reads no clock and no entropy source, and the engine starts from the library's fixed
  default state. So two runs of \<^verbatim>\<open>CreateRandomPointBuffer(count)\<close> with the same library
  leave the same bytes in the buffer they create, whatever OpenGL state each run starts in:
  the bytes of the \<open>count\<close> points drawn from \<open>default_engine\<close>.
\<close>

theorem createBuffer_reproducible:
  assumes "next_name g1 \<noteq> 0" and "next_name g2 \<noteq> 0"
  shows "buffers (snd (CreateRandomPointBuffer L count g1)) (fst (CreateRandomPointBuffer L count g1))
       = buffers (snd (CreateRandomPointBuffer L count g2)) (fst (CreateRandomPointBuffer L count g2))
     \<and> buffers (snd (CreateRandomPointBuffer L count g1)) (fst (CreateRandomPointBuffer L count g1))
       = Some (vector_bytes (interleaved (sample_points (uniform_real L f_minus_one f_zero)
             (uniform_real L f_minus_one f_one) (unat count) (default_engine L))))"
  using assms
  by (simp add: CreateRandomPointBuffer_name CreateRandomPointBuffer_store initial_points_spec)

text \<open>The theorem at two different OpenGL states.\<close>

theorem createBuffer_reproducible_witness:
  "next_name fresh_gl \<noteq> 0 \<and> next_name used_gl \<noteq> 0
   \<and> buffers (snd (CreateRandomPointBuffer sample_lib 2 fresh_gl))
        (fst (CreateRandomPointBuffer sample_lib 2 fresh_gl))
     = buffers (snd (CreateRandomPointBuffer sample_lib 2 used_gl))
        (fst (CreateRandomPointBuffer sample_lib 2 used_gl))"
  using createBuffer_reproducible [of fresh_gl used_gl sample_lib 2]
  by (simp add: fresh_gl_def used_gl_def)

text \<open>Two runs that start in different states and fill a buffer of two points: the
  contents are the same sixteen bytes.\<close>

theorem createBuffer_nonreproducible_counterexample:
  "fresh_gl \<noteq> used_gl
   \<and> buffers (snd (CreateRandomPointBuffer sample_lib 2 fresh_gl))
        (fst (CreateRandomPointBuffer sample_lib 2 fresh_gl))
     = Some [1, 0, 0, 191, 168, 65, 0, 191, 153, 124, 86, 191, 208, 32, 14, 191]
   \<and> buffers (snd (CreateRandomPointBuffer sample_lib 2 used_gl))
        (fst (CreateRandomPointBuffer sample_lib 2 used_gl))
     = Some [1, 0, 0, 191, 168, 65, 0, 191, 153, 124, 86, 191, 208, 32, 14, 191]"
proof -
  have "draw_calls fresh_gl \<noteq> draw_calls used_gl"
    by (simp add: fresh_gl_def used_gl_def)
  then have "fresh_gl \<noteq> used_gl"
    by metis
  moreover have "buffers (snd (CreateRandomPointBuffer sample_lib 2 fresh_gl))
        (fst (CreateRandomPointBuffer sample_lib 2 fresh_gl))
     = Some [1, 0, 0, 191, 168, 65, 0, 191, 153, 124, 86, 191, 208, 32, 14, 191]"
    by code_simp
  moreover have "buffers (snd (CreateRandomPointBuffer sample_lib 2 used_gl))
        (fst (CreateRandomPointBuffer sample_lib 2 used_gl))
     = Some [1, 0, 0, 191, 168, 65, 0, 191, 153, 124, 86, 191, 208, 32, 14, 191]"
    by code_simp
  ultimately show ?thesis
    by simp
qed

section \<open>Initialize does not check what GLFW answers\<close>

text \<open>
  C8, as the code has it. \<^verbatim>\<open>Initialize\<close> makes each of its calls once, in a fixed order,
  and looks at none of the results: whatever GLFW and glad answer, it returns to \<^verbatim>\<open>main\<close>
  the pointer \<^verbatim>\<open>glfwCreateWindow\<close> gave it, \<^verbatim>\<open>nullptr\<close> included. It does not end the
  process, writes no diagnostic, and does not call \<^verbatim>\<open>glfwInit\<close> or \<^verbatim>\<open>glfwCreateWindow\<close> a
  second time.
\<close>

theorem Initialize_unchecked:
  "fst (Initialize w h glfw) = Returned (created_window glfw)
   \<and> snd (Initialize w h glfw) =
       [GlfwInit,
        GlfwWindowHint GLFW_CONTEXT_VERSION_MAJOR (Version 4),
        GlfwWindowHint GLFW_CONTEXT_VERSION_MINOR (Version 6),
        GlfwWindowHint GLFW_OPENGL_PROFILE GLFW_OPENGL_CORE_PROFILE,
        GlfwCreateWindow w h ''Graph'',
        GlfwMakeContextCurrent (created_window glfw),
        GladLoadGLLoader]
   \<and> count_list (snd (Initialize w h glfw)) (GlfwCreateWindow w h ''Graph'') = 1
   \<and> count_list (snd (Initialize w h glfw)) GlfwInit = 1"
  by (simp add: Initialize_def Let_def)

text \<open>When the window cannot be created, \<^verbatim>\<open>Initialize\<close> returns \<^verbatim>\<open>nullptr\<close>; it does not
  abort.\<close>

theorem Initialize_abort_counterexample:
  "created_window no_window = 0
   \<and> fst (Initialize 2560 1440 no_window) = Returned 0
   \<and> (\<forall>diagnostic. fst (Initialize 2560 1440 no_window) \<noteq> Aborted diagnostic)"
  by (simp add: Initialize_def Let_def no_window_def)

section \<open>The number of AlterBuffer calls\<close>

text \<open>
  C1, as the code has it. With \<^verbatim>\<open>BATCHING_TEST\<close> defined, \<open>batchSize > 0\<close>, a cursor test
  that does not wrap (\<open>cursor_fits\<close>) and no close request from outside, the loop started
  by \<^verbatim>\<open>main\<close> ends: with \<open>q = floor(pointCount / batchSize)\<close>, given \<open>q + 2\<close> or more units of
  fuel it returns a state with the close flag set in which exactly \<open>q\<close> \<^verbatim>\<open>AlterBuffer\<close>
  calls have been made, the \<open>i\<close>-th with offset \<open>i * batchSize\<close> and seed \<open>i\<close>. And when the
  cursor test does not wrap, whatever the events, every \<^verbatim>\<open>AlterBuffer\<close> call made up to any
  state the loop reaches had \<open>offset + batchSize \<le> pointCount\<close>.
\<close>

theorem benchmark_mutation_count:
  assumes "BATCHING_TEST cfg" and "0 < batchSize cfg" and "cursor_fits cfg"
    and "\<forall>k. \<not> close_requested env k"
  shows "(\<exists>s'. (\<forall>extra. run (unat (pointCount cfg) div unat (batchSize cfg) + 2 + extra) cfg L env g0
                   = Some s')
           \<and> should_close s'
           \<and> length (alter_calls s') = unat (pointCount cfg) div unat (batchSize cfg)
           \<and> alter_calls s' =
                map (\<lambda>i. (of_nat i * batchSize cfg, batchSize cfg, of_nat i))
                  [0..<unat (pointCount cfg) div unat (batchSize cfg)])
       \<and> (\<forall>env' k s. reachable cfg L env' (main_vbo cfg L g0) (loop_start cfg L g0) k s
             \<longrightarrow> list_all (within_points cfg) (alter_calls s))"
proof -
  from benchmark_run [OF assms, of L g0] obtain s' where
    r: "run (unat (pointCount cfg) div unat (batchSize cfg) + 2) cfg L env g0 = Some s'"
    and c: "should_close s'"
    and a: "alter_calls s' =
            map (\<lambda>i. (of_nat i * batchSize cfg, batchSize cfg, of_nat i))
              [0..<unat (pointCount cfg) div unat (batchSize cfg)]"
    by blast
  have "run (unat (pointCount cfg) div unat (batchSize cfg) + 2 + extra) cfg L env g0 = Some s'"
    for extra
    using r unfolding run_def by (rule main_loop_more_fuel)
  then have "\<forall>extra. run (unat (pointCount cfg) div unat (batchSize cfg) + 2 + extra) cfg L env g0
      = Some s'"
    by blast
  moreover have "length (alter_calls s') = unat (pointCount cfg) div unat (batchSize cfg)"
    by (simp add: a)
  moreover have "\<forall>env' k s. reachable cfg L env' (main_vbo cfg L g0) (loop_start cfg L g0) k s
             \<longrightarrow> list_all (within_points cfg) (alter_calls s)"
  proof (intro allI impI)
    fix env' k s
    assume "reachable cfg L env' (main_vbo cfg L g0) (loop_start cfg L g0) k s"
    from cursor_multiple [OF assms(3) this] show "list_all (within_points cfg) (alter_calls s)"
      by (simp add: loop_start_fields)
  qed
  ultimately show ?thesis
    using c a by blast
qed

text \<open>The theorem at the constants Main.cpp is compiled with: 4096 calls.\<close>

theorem benchmark_mutation_count_witness:
  "BATCHING_TEST shipped \<and> 0 < batchSize shipped \<and> cursor_fits shipped
   \<and> (\<forall>k. \<not> close_requested quiet k)
   \<and> (\<exists>s'. run 4098 shipped sample_lib quiet fresh_gl = Some s' \<and> should_close s'
          \<and> length (alter_calls s') = 4096)"
proof -
  have h: "BATCHING_TEST shipped" "0 < batchSize shipped" "cursor_fits shipped"
    "\<forall>k. \<not> close_requested quiet k"
    by (simp_all add: shipped_def quiet_def cursor_fits_def)
  have q: "unat (pointCount shipped) div unat (batchSize shipped) = 4096"
    by (simp add: shipped_def)
  from benchmark_mutation_count [OF h, of sample_lib fresh_gl] obtain s' where
    all: "\<forall>extra. run (4096 + 2 + extra) shipped sample_lib quiet fresh_gl = Some s'"
    and rest: "should_close s'" "length (alter_calls s') = 4096"
    unfolding q by blast
  from all have "run (4096 + 2 + 0) shipped sample_lib quiet fresh_gl = Some s'"
    by (rule spec)
  then have "run 4098 shipped sample_lib quiet fresh_gl = Some s'"
    by simp
  with h rest show ?thesis
    by blast
qed

text \<open>
  Both added conditions are needed. With \<open>pointCount = 2 ^ 32 - 1\<close> and
  \<open>batchSize = 2 ^ 31\<close> the quotient is 1, but no \<^verbatim>\<open>unsigned int\<close> exceeds \<open>pointCount\<close>: the
  test never fires, the loop never ends of itself, and its second call is made at
  \<open>offset = 2 ^ 31\<close>, where \<open>offset + batchSize > pointCount\<close>. And with the shipped
  constants, a close request at the first \<^verbatim>\<open>glfwPollEvents\<close> ends the loop after one call,
  not 4096.
\<close>

theorem benchmark_mutation_count_counterexample:
  "BATCHING_TEST wrap_config \<and> 0 < batchSize wrap_config
   \<and> unat (pointCount wrap_config) div unat (batchSize wrap_config) = 1
   \<and> (\<forall>fuel. run fuel wrap_config sample_lib quiet fresh_gl = None)
   \<and> alter_calls (wrap_pass 1 (wrap_pass 0 wrap_start))
       = [(0, 0x80000000, 0), (0x80000000, 0x80000000, 1)]
   \<and> \<not> within_points wrap_config (0x80000000, 0x80000000, 1)
   \<and> BATCHING_TEST shipped \<and> 0 < batchSize shipped
   \<and> unat (pointCount shipped) div unat (batchSize shipped) = 4096
   \<and> map_option (\<lambda>s. length (alter_calls s)) (run 2 shipped sample_lib close_at_once fresh_gl)
       = Some 1"
proof -
  have "BATCHING_TEST wrap_config \<and> 0 < batchSize wrap_config
      \<and> unat (pointCount wrap_config) div unat (batchSize wrap_config) = 1
      \<and> \<not> within_points wrap_config (0x80000000, 0x80000000, 1)"
    by (simp add: wrap_config_def within_points_def)
  moreover have "alter_calls (wrap_pass 1 (wrap_pass 0 wrap_start))
       = [(0, 0x80000000, 0), (0x80000000, 0x80000000, 1)]"
    by (simp add: wrap_pass_fields wrap_start_fields)
  moreover have "BATCHING_TEST shipped \<and> 0 < batchSize shipped
      \<and> unat (pointCount shipped) div unat (batchSize shipped) = 4096"
    by (simp add: shipped_def)
  moreover have "map_option (\<lambda>s. length (alter_calls s))
      (run 2 shipped sample_lib close_at_once fresh_gl) = Some 1"
  proof -
    let ?s0 = "loop_start shipped sample_lib fresh_gl"
    let ?v = "main_vbo shipped sample_lib fresh_gl"
    have bt: "BATCHING_TEST shipped"
      and test: "\<not> (offset ?s0 + batchSize shipped > pointCount shipped)"
      by (simp_all add: shipped_def loop_start_fields)
    note mu = loop_body_mutate [OF bt test, of sample_lib close_at_once ?v 0]
    have "should_close (loop_body shipped sample_lib close_at_once ?v 0 ?s0)"
      using mu(3) by (simp add: close_at_once_def)
    then have "run 2 shipped sample_lib close_at_once fresh_gl
        = Some (loop_body shipped sample_lib close_at_once ?v 0 ?s0)"
      by (simp add: run_def numeral_2_eq_2 loop_start_fields)
    then show ?thesis
      by (simp add: mu(4) loop_start_fields)
  qed
  ultimately show ?thesis
    using wrap_run_never_exits by blast
qed

section \<open>The cursor\<close>

text \<open>
  Where the cursor test fits. In every state the loop of \<^verbatim>\<open>main\<close> reaches,
  \<open>offset \<le> pointCount\<close>. When the cursor test does not wrap (\<open>cursor_fits\<close>, which holds
  whenever \<open>pointCount < 2 ^ 31\<close>), a pass of the loop never decreases
  \<open>offset\<close>: either it makes one \<^verbatim>\<open>AlterBuffer\<close> call, at the current offset, and \<open>offset\<close>
  grows by exactly \<open>batchSize\<close> over the naturals (no wrap-around), or it makes no call
  and \<open>offset\<close> stays.
\<close>

theorem cursor_invariant:
  assumes "reachable cfg L env (main_vbo cfg L g0) (loop_start cfg L g0) k s"
  shows "offset s \<le> pointCount cfg
       \<and> (cursor_fits cfg \<longrightarrow> \<not> should_close s \<longrightarrow>
            offset s \<le> offset (loop_body cfg L env (main_vbo cfg L g0) k s)
            \<and> (alter_calls (loop_body cfg L env (main_vbo cfg L g0) k s)
                   = alter_calls s @ [(offset s, batchSize cfg, frame s)]
                 \<and> unat (offset (loop_body cfg L env (main_vbo cfg L g0) k s))
                   = unat (offset s) + unat (batchSize cfg)
               \<or> alter_calls (loop_body cfg L env (main_vbo cfg L g0) k s) = alter_calls s
                 \<and> offset (loop_body cfg L env (main_vbo cfg L g0) k s) = offset s))"
proof -
  let ?t = "loop_body cfg L env (main_vbo cfg L g0) k s"
  have bound: "offset s \<le> pointCount cfg"
    using offset_below_pointCount [OF assms] by (simp add: loop_start_fields)
  have step: "offset s \<le> offset ?t
            \<and> (alter_calls ?t = alter_calls s @ [(offset s, batchSize cfg, frame s)]
                 \<and> unat (offset ?t) = unat (offset s) + unat (batchSize cfg)
               \<or> alter_calls ?t = alter_calls s \<and> offset ?t = offset s)"
    if fits: "cursor_fits cfg"
  proof (cases "BATCHING_TEST cfg \<and> \<not> (offset s + batchSize cfg > pointCount cfg)")
    case True
    then have bt: "BATCHING_TEST cfg" and test: "\<not> (offset s + batchSize cfg > pointCount cfg)"
      by simp_all
    note mu = loop_body_mutate [OF bt test, of L env "main_vbo cfg L g0" k]
    from cursor_multiple [OF fits assms] obtain j where
      "unat (offset s) = j * unat (batchSize cfg)"
      "j * unat (batchSize cfg) \<le> unat (pointCount cfg)"
      by (auto simp add: loop_start_fields)
    from pass_fits [OF fits this]
    have u: "unat (offset ?t) = unat (offset s) + unat (batchSize cfg)"
      by (simp add: mu(1) unat_add_fits)
    then have "offset s \<le> offset ?t"
      by (simp add: word_le_nat_alt)
    with u mu(4) show ?thesis
      by simp
  next
    case False
    then have "alter_calls ?t = alter_calls s \<and> offset ?t = offset s"
      by (cases "BATCHING_TEST cfg") (simp_all add: loop_body_plain loop_body_exhausted)
    then show ?thesis
      by simp
  qed
  from bound step show ?thesis
    by blast
qed

text \<open>The theorem at the first pass of the shipped configuration.\<close>

theorem cursor_invariant_example:
  "reachable shipped sample_lib quiet (main_vbo shipped sample_lib fresh_gl)
     (loop_start shipped sample_lib fresh_gl) 0 (loop_start shipped sample_lib fresh_gl)
   \<and> cursor_fits shipped
   \<and> \<not> should_close (loop_start shipped sample_lib fresh_gl)
   \<and> offset (loop_start shipped sample_lib fresh_gl) \<le> pointCount shipped
   \<and> unat (offset (loop_body shipped sample_lib quiet (main_vbo shipped sample_lib fresh_gl) 0
        (loop_start shipped sample_lib fresh_gl))) = 16384"
proof -
  let ?s0 = "loop_start shipped sample_lib fresh_gl"
  let ?t = "loop_body shipped sample_lib quiet (main_vbo shipped sample_lib fresh_gl) 0 ?s0"
  have r: "reachable shipped sample_lib quiet (main_vbo shipped sample_lib fresh_gl) ?s0 0 ?s0"
    by (rule reachable.start)
  have f: "cursor_fits shipped" and n: "\<not> should_close ?s0"
    by (simp_all add: cursor_fits_def shipped_def loop_start_fields)
  have a: "alter_calls ?t \<noteq> alter_calls ?s0"
    by (simp add: loop_body_def poll_events_def batching_step_def render_pass_def Let_def
        loop_start_fields shipped_def)
  from cursor_invariant [OF r] f n have
    "offset ?s0 \<le> pointCount shipped"
    "alter_calls ?t = alter_calls ?s0 @ [(offset ?s0, batchSize shipped, frame ?s0)]
       \<and> unat (offset ?t) = unat (offset ?s0) + unat (batchSize shipped)
     \<or> alter_calls ?t = alter_calls ?s0 \<and> offset ?t = offset ?s0"
    by blast+
  with a have "offset ?s0 \<le> pointCount shipped"
    "unat (offset ?t) = unat (offset ?s0) + unat (batchSize shipped)"
    by blast+
  then have "offset ?s0 \<le> pointCount shipped" "unat (offset ?t) = 16384"
    by (simp_all add: loop_start_fields shipped_def)
  with r f n show ?thesis
    by blast
qed

text \<open>
  C3. The claim is that in every reachable state \<open>0 \<le> offset \<le> pointCount\<close>, and that
  \<open>offset\<close> never decreases, advances by exactly \<open>batchSize\<close> on each \<^verbatim>\<open>AlterBuffer\<close> call and
  never wraps around. The code breaks the second half where the sum of its guard wraps:
  \<^verbatim>\<open>offset + batchSize > pointCount\<close> is formed in \<^verbatim>\<open>unsigned int\<close>, and a sum that has
  wrapped passes the test it was meant to fail. With \<open>pointCount = 2 ^ 32 - 1\<close> and
  \<open>batchSize = 2 ^ 31\<close> the loop reaches, by its second pass, a state whose \<open>offset\<close> an
  \<^verbatim>\<open>AlterBuffer\<close> call has taken from \<open>2 ^ 31\<close> back to 0.
\<close>

theorem cursor_wraps_around:
  "reachable wrap_config sample_lib quiet (main_vbo wrap_config sample_lib fresh_gl)
     wrap_start 2 (wrap_pass 1 (wrap_pass 0 wrap_start))
   \<and> offset (wrap_pass 0 wrap_start) = 0x80000000
   \<and> offset (wrap_pass 1 (wrap_pass 0 wrap_start)) = 0
   \<and> offset (wrap_pass 1 (wrap_pass 0 wrap_start)) < offset (wrap_pass 0 wrap_start)
   \<and> alter_calls (wrap_pass 1 (wrap_pass 0 wrap_start))
       = alter_calls (wrap_pass 0 wrap_start) @ [(0x80000000, 0x80000000, 1)]
   \<and> unat (offset (wrap_pass 0 wrap_start)) + unat (batchSize wrap_config) = 2 ^ 32
   \<and> \<not> cursor_fits wrap_config"
proof -
  have "offset (wrap_pass 0 wrap_start) = 0x80000000
      \<and> offset (wrap_pass 1 (wrap_pass 0 wrap_start)) = 0
      \<and> offset (wrap_pass 1 (wrap_pass 0 wrap_start)) < offset (wrap_pass 0 wrap_start)
      \<and> alter_calls (wrap_pass 1 (wrap_pass 0 wrap_start))
          = alter_calls (wrap_pass 0 wrap_start) @ [(0x80000000, 0x80000000, 1)]"
    by (simp add: wrap_pass_fields wrap_start_fields)
  moreover have "unat (offset (wrap_pass 0 wrap_start)) + unat (batchSize wrap_config) = 2 ^ 32"
    by (simp add: wrap_pass_fields wrap_start_fields wrap_config_def)
  moreover have "\<not> cursor_fits wrap_config"
    by (simp add: cursor_fits_def wrap_config_def)
  ultimately show ?thesis
    using wrap_reachable(2) by blast
qed

section \<open>The frame count\<close>

text \<open>
  Where the cursor test fits. With \<^verbatim>\<open>BATCHING_TEST\<close> defined, \<open>batchSize > 0\<close>, a cursor test
  that does not wrap (\<open>cursor_fits\<close>, which holds whenever \<open>pointCount < 2 ^ 31\<close>) and no
  close request from outside, the pass in which
  the test first fires still draws, counts its frame and adds its time: with
  \<open>q = floor(pointCount / batchSize)\<close>, the loop ends in a state with \<open>frame = q + 1\<close>, after
  \<open>q\<close> \<^verbatim>\<open>AlterBuffer\<close> calls and \<open>q + 1\<close> draws, \<open>sum\<close> holding the \<open>q + 1\<close> times of the passes
  \<open>0, \<dots>, q\<close>, and the second line \<^verbatim>\<open>main\<close> prints is the count \<open>q + 1\<close>.
\<close>

theorem frame_count_one_more:
  assumes "BATCHING_TEST cfg" and "0 < batchSize cfg" and "cursor_fits cfg"
    and "\<forall>k. \<not> close_requested env k"
  shows "\<exists>s'. run (unat (pointCount cfg) div unat (batchSize cfg) + 2) cfg L env g0 = Some s'
       \<and> unat (frame s') = unat (pointCount cfg) div unat (batchSize cfg) + 1
       \<and> length (alter_calls s') = unat (pointCount cfg) div unat (batchSize cfg)
       \<and> draw_calls (gl s') = draw_calls g0 + unat (pointCount cfg) div unat (batchSize cfg) + 1
       \<and> sum_f s' = map (elapsed_ms env) [0..<unat (pointCount cfg) div unat (batchSize cfg) + 1]
       \<and> main (unat (pointCount cfg) div unat (batchSize cfg) + 2) cfg L env g0 =
           Some [Mean (map (elapsed_ms env) [0..<unat (pointCount cfg) div unat (batchSize cfg) + 1])
                   (of_nat (unat (pointCount cfg) div unat (batchSize cfg) + 1)),
                 Count (of_nat (unat (pointCount cfg) div unat (batchSize cfg) + 1))]"
proof -
  let ?q = "unat (pointCount cfg) div unat (batchSize cfg)"
  from assms(2) have b: "0 < unat (batchSize cfg)"
    by (simp add: word_less_nat_alt)
  then have "?q \<le> ?q * unat (batchSize cfg)" and "1 \<le> unat (batchSize cfg)"
    by simp_all
  then have "?q + 1 \<le> ?q * unat (batchSize cfg) + unat (batchSize cfg)"
    by (rule add_mono)
  with assms(3) have small: "?q + 1 < 2 ^ 32"
    by (simp add: cursor_fits_def)
  have "unat (of_nat (?q + 1) :: u32) = (?q + 1) mod 2 ^ LENGTH(32)"
    by (rule unat_of_nat)
  also have "\<dots> = ?q + 1"
    using small by simp
  finally have u: "unat (of_nat (?q + 1) :: u32) = ?q + 1" .
  from benchmark_run [OF assms, of L g0] obtain s' where
    "run (?q + 2) cfg L env g0 = Some s'"
    "frame s' = of_nat (?q + 1)"
    "alter_calls s' = map (\<lambda>i. (of_nat i * batchSize cfg, batchSize cfg, of_nat i)) [0..<?q]"
    "sum_f s' = map (elapsed_ms env) [0..<?q + 1]"
    "draw_calls (gl s') = draw_calls g0 + ?q + 1"
    by blast
  with u show ?thesis
    by (simp add: report_def main_def del: of_nat_add of_nat_Suc)
qed

text \<open>The theorem at \<open>pointCount = 1024\<close>, \<open>batchSize = 256\<close>: five frames, four calls.\<close>

theorem frame_count_one_more_example:
  "BATCHING_TEST scenario \<and> 0 < batchSize scenario \<and> cursor_fits scenario
   \<and> (\<forall>k. \<not> close_requested quiet k)
   \<and> (\<exists>s'. run 6 scenario sample_lib quiet fresh_gl = Some s'
          \<and> unat (frame s') = 5 \<and> length (alter_calls s') = 4
          \<and> draw_calls (gl s') = 5 \<and> length (sum_f s') = 5)
   \<and> main 6 scenario sample_lib quiet fresh_gl
       = Some [Mean [f_one, f_one, f_one, f_one, f_one] 5, Count 5]"
proof -
  have h: "BATCHING_TEST scenario" "0 < batchSize scenario" "cursor_fits scenario"
    "\<forall>k. \<not> close_requested quiet k"
    by (simp_all add: scenario_def quiet_def cursor_fits_def)
  have q: "unat (pointCount scenario) div unat (batchSize scenario) = 4"
    by (simp add: scenario_def)
  from frame_count_one_more [OF h, of sample_lib fresh_gl] obtain s' where
    "run (4 + 2) scenario sample_lib quiet fresh_gl = Some s'"
    "unat (frame s') = 4 + 1" "length (alter_calls s') = 4"
    "draw_calls (gl s') = draw_calls fresh_gl + 4 + 1"
    "sum_f s' = map (elapsed_ms quiet) [0..<4 + 1]"
    "main (4 + 2) scenario sample_lib quiet fresh_gl =
       Some [Mean (map (elapsed_ms quiet) [0..<4 + 1]) (of_nat (4 + 1)), Count (of_nat (4 + 1))]"
    unfolding q by blast
  moreover have "[0..<5] = [0, 1, 2, 3, 4 :: nat]"
    by code_simp
  ultimately have "run 6 scenario sample_lib quiet fresh_gl = Some s'
          \<and> unat (frame s') = 5 \<and> length (alter_calls s') = 4
          \<and> draw_calls (gl s') = 5 \<and> length (sum_f s') = 5"
    and "main 6 scenario sample_lib quiet fresh_gl
       = Some [Mean [f_one, f_one, f_one, f_one, f_one] 5, Count 5]"
    by (simp_all add: fresh_gl_def quiet_def)
  with h show ?thesis
    by blast
qed

text \<open>
  C10. The claim is that in benchmark mode, with \<open>batchSize > 0\<close> and no close signal from
  outside, the pass in which the cursor is first exhausted still draws and counts, so that
  the reported frame count is \<open>floor(pointCount / batchSize) + 1\<close>. The code breaks it where
  the sum of its guard wraps: with \<open>pointCount = 2 ^ 32 - 1\<close> and \<open>batchSize = 2 ^ 31\<close> that
  count is 2, but after three passes the loop is still running with \<open>frame = 3\<close>; it never
  ends of itself, and \<^verbatim>\<open>main\<close> reports nothing.
\<close>

theorem frame_count_never_reported:
  "BATCHING_TEST wrap_config \<and> 0 < batchSize wrap_config \<and> (\<forall>k. \<not> close_requested quiet k)
   \<and> unat (pointCount wrap_config) div unat (batchSize wrap_config) + 1 = 2
   \<and> reachable wrap_config sample_lib quiet (main_vbo wrap_config sample_lib fresh_gl)
       wrap_start 3 (wrap_pass 2 (wrap_pass 1 (wrap_pass 0 wrap_start)))
   \<and> frame (wrap_pass 2 (wrap_pass 1 (wrap_pass 0 wrap_start))) = 3
   \<and> \<not> should_close (wrap_pass 2 (wrap_pass 1 (wrap_pass 0 wrap_start)))
   \<and> (\<forall>fuel s'. run fuel wrap_config sample_lib quiet fresh_gl \<noteq> Some s')
   \<and> (\<forall>fuel. main fuel wrap_config sample_lib quiet fresh_gl = None)"
proof -
  have "BATCHING_TEST wrap_config \<and> 0 < batchSize wrap_config
      \<and> (\<forall>k. \<not> close_requested quiet k)
      \<and> unat (pointCount wrap_config) div unat (batchSize wrap_config) + 1 = 2"
    by (simp add: wrap_config_def quiet_def)
  moreover have "frame (wrap_pass 2 (wrap_pass 1 (wrap_pass 0 wrap_start))) = 3
      \<and> \<not> should_close (wrap_pass 2 (wrap_pass 1 (wrap_pass 0 wrap_start)))"
    by (simp add: wrap_pass_fields wrap_start_fields)
  moreover have "\<forall>fuel s'. run fuel wrap_config sample_lib quiet fresh_gl \<noteq> Some s'"
    by (simp add: wrap_run_never_exits)
  moreover have "\<forall>fuel. main fuel wrap_config sample_lib quiet fresh_gl = None"
    by (simp add: main_def wrap_run_never_exits)
  ultimately show ?thesis
    using wrap_reachable(1) by blast
qed

section \<open>The two lines of the report\<close>




end
